theory Spec2Isabelle
  imports Complex_Main
begin

section \<open>Python strings and dictionaries\<close>

text \<open>
  A Python \<open>str\<close> is modelled as a \<open>string\<close>, one \<open>char\<close> per code point (code points
  below 256 only). A \<open>dict\<close> is an association list in insertion order in which every key
  occurs once.
\<close>

text \<open>\<open>sub in s\<close> on strings: \<open>sub\<close> occurs in \<open>s\<close> as a contiguous substring.\<close>

primrec py_in :: "string \<Rightarrow> string \<Rightarrow> bool" where
  "py_in sub [] = (sub = [])"
| "py_in sub (c # cs) = (take (length sub) (c # cs) = sub \<or> py_in sub cs)"

text \<open>\<open>d[k] = v\<close>: a key already present keeps its position and takes the new value, a new
  key goes last.\<close>

fun dict_set :: "('k \<times> 'v) list \<Rightarrow> 'k \<Rightarrow> 'v \<Rightarrow> ('k \<times> 'v) list" where
  "dict_set [] k v = [(k, v)]"
| "dict_set ((k', v') # d) k v =
     (if k' = k then (k, v) # d else (k', v') # dict_set d k v)"

text \<open>\<open>d.update(e)\<close>: the entries of \<open>e\<close> are stored one after the other.\<close>

definition dict_update :: "('k \<times> 'v) list \<Rightarrow> ('k \<times> 'v) list \<Rightarrow> ('k \<times> 'v) list" where
  "dict_update d e = foldl (\<lambda>acc (k, v). dict_set acc k v) d e"

text \<open>\<open>sep.join(xs)\<close>.\<close>

fun str_join :: "string \<Rightarrow> string list \<Rightarrow> string" where
  "str_join sep [] = []"
| "str_join sep [x] = x"
| "str_join sep (x # y # ys) = x @ sep @ str_join sep (y # ys)"

text \<open>\<open>s.split(sep)\<close> for a non-empty separator: the string is cut at every occurrence of
  \<open>sep\<close>, found from the left, occurrences not overlapping. \<open>unit\<close> is the piece being read.
  Python raises ValueError for an empty separator; the only call of the program passes
  \<open>',,'\<close>, and the model leaves such a string uncut.\<close>

fun split_from :: "string \<Rightarrow> string \<Rightarrow> string \<Rightarrow> string list" where
  "split_from sep unit [] = [unit]"
| "split_from sep unit (c # cs) =
     (if sep \<noteq> [] \<and> take (length sep) (c # cs) = sep
      then unit # split_from sep [] (drop (length sep) (c # cs))
      else split_from sep (unit @ [c]) cs)"

definition str_split :: "string \<Rightarrow> string \<Rightarrow> string list" where
  "str_split s sep = split_from sep [] s"

text \<open>\<open>c.isspace()\<close> for a code point below 256: tab to carriage return, the four
  separators FS, GS, RS and US, the space, NEL and the no-break space.\<close>

definition isspace :: "char \<Rightarrow> bool" where
  "isspace c = ((of_char c :: nat) \<in> {9, 10, 11, 12, 13, 28, 29, 30, 31, 32, 133, 160})"

text \<open>\<open>s.strip()\<close>: white space removed at both ends.\<close>

definition str_strip :: "string \<Rightarrow> string" where
  "str_strip s = rev (dropWhile isspace (rev (dropWhile isspace s)))"

text \<open>\<open>s.lower()\<close> for code points below 256: the letters A to Z, and the capital letters
  of Latin-1 (0xC0 to 0xDE but the multiplication sign 0xD7), move up by 32.\<close>

definition lower_char :: "char \<Rightarrow> char" where
  "lower_char c =
     (let n = (of_char c :: nat)
      in if (65 \<le> n \<and> n \<le> 90) \<or> (192 \<le> n \<and> n \<le> 222 \<and> n \<noteq> 215)
         then char_of (n + 32) else c)"

definition str_lower :: "string \<Rightarrow> string" where
  "str_lower s = map lower_char s"

text \<open>\<open>repr(s)\<close> of a string with no quote, backslash or unprintable character, which is
  what the error types of the validation library are: the string between single quotes.\<close>

definition py_repr :: "string \<Rightarrow> string" where
  "py_repr s = [CHR 0x27] @ s @ [CHR 0x27]"

subsection \<open>Paths (\<open>os.path\<close> on POSIX)\<close>

text \<open>\<open>p.rfind(c)\<close>: the index of the last \<open>c\<close> in \<open>p\<close>, or \<open>-1\<close>.\<close>

definition rfind :: "string \<Rightarrow> char \<Rightarrow> int" where
  "rfind p c =
     (if c \<in> set p
      then int (length p) - 1 - int (length (takeWhile (\<lambda>x. x \<noteq> c) (rev p)))
      else - 1)"

text \<open>\<open>os.path.splitext(p)\<close>: the extension starts at the last dot of the last path
  component, unless only dots come before it in that component.\<close>

definition splitext :: "string \<Rightarrow> string \<times> string" where
  "splitext p =
     (let sepIndex = rfind p (CHR ''/'');
          dotIndex = rfind p (CHR ''.'')
      in if dotIndex > sepIndex \<and>
            list_ex (\<lambda>c. c \<noteq> CHR ''.'')
              (take (nat (dotIndex - (sepIndex + 1))) (drop (nat (sepIndex + 1)) p))
         then (take (nat dotIndex) p, drop (nat dotIndex) p)
         else (p, []))"

text \<open>\<open>os.path.basename(p)\<close>: what follows the last slash.\<close>

definition basename :: "string \<Rightarrow> string" where
  "basename p = drop (nat (rfind p (CHR ''/'') + 1)) p"

text \<open>\<open>os.path.dirname(p)\<close>: what comes before the last component, without its trailing
  slashes unless it consists of slashes only.\<close>

definition dirname :: "string \<Rightarrow> string" where
  "dirname p =
     (let head = take (nat (rfind p (CHR ''/'') + 1)) p
      in if head \<noteq> [] \<and> \<not> list_all (\<lambda>c. c = CHR ''/'') head
         then rev (dropWhile (\<lambda>c. c = CHR ''/'') (rev head))
         else head)"

section \<open>The dynamic model (\<open>DynamicExtractor.get_dynamic_model\<close>)\<close>

text \<open>One user-declared field, the dictionary \<open>{'name': .., 'type': .., 'optional': ..}\<close> that
  \<open>cli.py\<close> builds.\<close>

record field =
  name :: string
  type :: string
  optional :: bool

datatype prim = PStr | PInt | PFloat | PBool

text \<open>The Python type a field is declared with: \<open>str\<close>, \<open>int\<close>, \<open>float\<close>, \<open>bool\<close> or
  \<open>List[inner_type]\<close>.\<close>

datatype ftype = Prim prim | ListOf prim

text \<open>The default of a field: \<open>None\<close> for an optional field, \<open>...\<close> (required) otherwise.\<close>

datatype default_value = DefaultNone | Ellipsis

text \<open>Lines 42 to 57: the \<open>if\<close>/\<open>elif\<close> chain that resolves \<open>field['type']\<close>.\<close>

definition field_type :: "string \<Rightarrow> ftype" where
  "field_type t =
     (if t = ''int'' then Prim PInt
      else if t = ''float'' then Prim PFloat
      else if t = ''bool'' then Prim PBool
      else if py_in ''list'' t then
        ListOf (if py_in ''int'' t then PInt
                else if py_in ''float'' t then PFloat
                else if py_in ''bool'' t then PBool
                else PStr)
      else Prim PStr)"

type_synonym model = "(string \<times> ftype \<times> default_value) list"

text \<open>The loop body, lines 59 to 61: \<open>model_fields[field['name']] = (field_type, default_value)\<close>.\<close>

definition add_field :: "model \<Rightarrow> field \<Rightarrow> model" where
  "add_field model_fields f =
     dict_set model_fields (name f)
       (field_type (type f), if optional f then DefaultNone else Ellipsis)"

text \<open>The loop of lines 40 to 61: the dictionary \<open>model_fields\<close> after every declaration has
  been stored.\<close>

definition model_fields_dict :: "field list \<Rightarrow> model" where
  "model_fields_dict flds = foldl add_field [] flds"

section \<open>JSON values and validation against the dynamic model\<close>

text \<open>
  A Python float: a finite double, given by the rational number it is, an infinity or
  not-a-number. No arithmetic is done on floats but the conversion of an integer below.
\<close>

datatype pyfloat = Finite rat | PosInf | NegInf | NaN

text \<open>
  A parsed document, as the reader of the validation library hands it over. A number
  written without fraction and exponent is an integer, any other number a float. The
  members of an object come in the order of the document, every key once.
\<close>

datatype json =
    JNull
  | JBool bool
  | JInt int
  | JFloat pyfloat
  | JString string
  | JArray "json list"
  | JObject "(string \<times> json) list"

text \<open>The Python values a validated field holds, and \<open>None\<close>.\<close>

datatype pyval =
    VNone
  | VBool bool
  | VInt int
  | VFloat pyfloat
  | VStr string
  | VList "pyval list"

text \<open>What the validation raises: a \<open>ValidationError\<close>, kept as the type of its first error
  (\<open>exc.errors()[0]['type']\<close>), or a \<open>json.JSONDecodeError\<close> with its message.\<close>

datatype validation_exn = ValidationError string | JSONDecodeError string

text \<open>The number of binary digits of a natural number.\<close>

fun bit_length :: "nat \<Rightarrow> nat" where
  "bit_length n = (if n = 0 then 0 else Suc (bit_length (n div 2)))"

declare bit_length.simps [simp del]

text \<open>The double nearest to an integer of the signed 64-bit range (the conversion the
  library applies to an integer given for a float): the 53 leading binary digits are kept,
  rounded to nearest, a tie to the even neighbour.\<close>

definition int_to_double :: "int \<Rightarrow> rat" where
  "int_to_double n =
     (let a = nat \<bar>n\<bar>;
          e = bit_length a - 53;
          q = a div 2 ^ e;
          r = a mod 2 ^ e;
          m = (if 2 * r > 2 ^ e \<or> (2 * r = 2 ^ e \<and> odd q) then q + 1 else q)
      in of_int (sgn n * int (m * 2 ^ e)))"

definition in_i64 :: "int \<Rightarrow> bool" where
  "in_i64 n = (- (2 ^ 63) \<le> n \<and> n < 2 ^ 63)"

text \<open>
  One value against a primitive type, as the validation library (pydantic, version 2, in its
  default lax mode on JSON input) does it. A value of the JSON type that the Python type
  names is taken as it is, and an integer of the 64-bit range given for a \<open>float\<close> becomes
  the nearest double. \<open>null\<close>, an array or an object is never a primitive, and only a string
  is a \<open>str\<close>. The remaining pairs (a number or a string for \<open>bool\<close>, a string for \<open>int\<close>, a
  larger integer for \<open>float\<close> and so on) are the library's other coercions: they are the
  parameter \<open>lx\<close>, which gives the coerced value or the type of the error.
\<close>

fun validate_prim :: "(prim \<Rightarrow> json \<Rightarrow> string + pyval) \<Rightarrow> prim \<Rightarrow> json \<Rightarrow> string + pyval" where
  "validate_prim lx PStr (JString s) = Inr (VStr s)"
| "validate_prim lx PStr v = Inl ''string_type''"
| "validate_prim lx PInt (JInt n) = Inr (VInt n)"
| "validate_prim lx PInt JNull = Inl ''int_type''"
| "validate_prim lx PInt (JArray xs) = Inl ''int_type''"
| "validate_prim lx PInt (JObject kvs) = Inl ''int_type''"
| "validate_prim lx PFloat (JFloat r) = Inr (VFloat r)"
| "validate_prim lx PFloat (JInt n) =
     (if in_i64 n then Inr (VFloat (Finite (int_to_double n))) else lx PFloat (JInt n))"
| "validate_prim lx PFloat JNull = Inl ''float_type''"
| "validate_prim lx PFloat (JArray xs) = Inl ''float_type''"
| "validate_prim lx PFloat (JObject kvs) = Inl ''float_type''"
| "validate_prim lx PBool (JBool b) = Inr (VBool b)"
| "validate_prim lx PBool JNull = Inl ''bool_type''"
| "validate_prim lx PBool (JArray xs) = Inl ''bool_type''"
| "validate_prim lx PBool (JObject kvs) = Inl ''bool_type''"
| "validate_prim lx p v = lx p v"

text \<open>All results when every one is valid, the first error otherwise: the library visits
  the items of a list and the fields of a model in order, and the program reads the first
  error only.\<close>

fun first_error :: "('e + 'a) list \<Rightarrow> 'e + 'a list" where
  "first_error [] = Inr []"
| "first_error (Inl e # rs) = Inl e"
| "first_error (Inr x # rs) =
     (case first_error rs of Inl e \<Rightarrow> Inl e | Inr xs \<Rightarrow> Inr (x # xs))"

text \<open>A value against a field type; \<open>List[inner_type]\<close> takes a JSON array only.\<close>

fun validate_value :: "(prim \<Rightarrow> json \<Rightarrow> string + pyval) \<Rightarrow> ftype \<Rightarrow> json \<Rightarrow> string + pyval" where
  "validate_value lx (Prim p) v = validate_prim lx p v"
| "validate_value lx (ListOf p) (JArray xs) =
     (case first_error (map (validate_prim lx p) xs) of
        Inl e \<Rightarrow> Inl e
      | Inr vs \<Rightarrow> Inr (VList vs))"
| "validate_value lx (ListOf p) v = Inl ''list_type''"

text \<open>One field of \<open>Entity\<close> against the members of an object: a key that is present is
  validated (also when the field is optional: its type is the declared one, not an
  optional type), a missing key takes the default \<open>None\<close> or, for a required field, is the
  error \<open>missing\<close>.\<close>

fun validate_field ::
  "(prim \<Rightarrow> json \<Rightarrow> string + pyval) \<Rightarrow> (string \<times> json) list \<Rightarrow>
   string \<times> ftype \<times> default_value \<Rightarrow> string + (string \<times> pyval)" where
  "validate_field lx kvs (n, t, d) =
     (case map_of kvs n of
        Some v \<Rightarrow> (case validate_value lx t v of Inl e \<Rightarrow> Inl e | Inr x \<Rightarrow> Inr (n, x))
      | None \<Rightarrow> (case d of Ellipsis \<Rightarrow> Inl ''missing'' | DefaultNone \<Rightarrow> Inr (n, VNone)))"

text \<open>One array element against \<open>Entity\<close>. The result is the validated instance, as
  \<open>model_dump()\<close> gives it: every field of the model, in the model's order. Keys of the
  object that the model does not declare are ignored.\<close>

fun validate_entity ::
  "(prim \<Rightarrow> json \<Rightarrow> string + pyval) \<Rightarrow> model \<Rightarrow> json \<Rightarrow> string + (string \<times> pyval) list" where
  "validate_entity lx Entity (JObject kvs) = first_error (map (validate_field lx kvs) Entity)"
| "validate_entity lx Entity v = Inl ''model_type''"

text \<open>\<open>class EntitiesList(BaseModel): Entities: list[Entity]\<close> against a parsed document.\<close>

fun validate_entities_list ::
  "(prim \<Rightarrow> json \<Rightarrow> string + pyval) \<Rightarrow> model \<Rightarrow> json \<Rightarrow> string + (string \<times> pyval) list list" where
  "validate_entities_list lx Entity (JObject members) =
     (case map_of members ''Entities'' of
        None \<Rightarrow> Inl ''missing''
      | Some (JArray elems) \<Rightarrow> first_error (map (validate_entity lx Entity) elems)
      | Some v \<Rightarrow> Inl ''list_type'')"
| "validate_entities_list lx Entity v = Inl ''model_type''"

text \<open>\<open>EntitiesList.model_validate_json(response_content)\<close>. \<open>loads\<close> is the reader of the
  library, \<open>None\<close> on a text it does not accept. Beyond JSON it accepts the numbers \<open>NaN\<close>,
  \<open>Infinity\<close> and \<open>-Infinity\<close>. The library reports a text it does not accept as a
  \<open>ValidationError\<close> of type \<open>json_invalid\<close>; it never raises \<open>json.JSONDecodeError\<close>.\<close>

definition model_validate_json ::
  "(string \<Rightarrow> json option) \<Rightarrow> (prim \<Rightarrow> json \<Rightarrow> string + pyval) \<Rightarrow> model \<Rightarrow> string \<Rightarrow>
   validation_exn + (string \<times> pyval) list list" where
  "model_validate_json loads lx Entity response_content =
     (case loads response_content of
        None \<Rightarrow> Inl (ValidationError ''json_invalid'')
      | Some doc \<Rightarrow>
          (case validate_entities_list lx Entity doc of
             Inl e \<Rightarrow> Inl (ValidationError e)
           | Inr entities \<Rightarrow> Inr entities))"

section \<open>The extractor and the world it runs in\<close>

text \<open>
  Exceptions below \<open>Exception\<close>, each with its text (\<open>str(e)\<close>). \<open>PermissionError\<close> is a
  subclass of \<open>OSError\<close>; \<open>MarkupError\<close> is the console library's; \<open>Exception\<close> is any
  other one. An interrupt from the keyboard is not below \<open>Exception\<close> and is outside the
  model.
\<close>

datatype exn =
    PermissionError string
  | OSError string
  | TypeError string
  | ValueError string
  | MarkupError string
  | Exception string

fun exn_str :: "exn \<Rightarrow> string" where
  "exn_str (PermissionError m) = m"
| "exn_str (OSError m) = m"
| "exn_str (TypeError m) = m"
| "exn_str (ValueError m) = m"
| "exn_str (MarkupError m) = m"
| "exn_str (Exception m) = m"

text \<open>One entry of a result list: \<open>{'input': .., 'response': ..}\<close>.\<close>

record result =
  input :: string
  response :: "(string \<times> pyval) list"

text \<open>The arguments of \<open>self.client.chat\<close>: the model, the contents of the system and the
  user message, the images attached to the user message, the response format (the JSON
  schema of \<open>EntitiesList\<close>, which is determined by \<open>Entity\<close>) and the temperature.\<close>

record chat_request =
  model_name :: string
  system_content :: string
  user_content :: string
  images :: "string list"
  response_format :: model
  temperature :: nat

text \<open>What an exported file holds: the result list that \<open>json.dump\<close> serialised, or the rows
  given to the CSV writer, the header first, one cell per column.\<close>

datatype file_content = JsonFile "result list" | CsvFile "pyval list list"

text \<open>
  The state the operations change: the lines printed on the console (the text handed to
  \<open>console.print\<close>, with its markup, not what the terminal shows), the files written, the
  directories created, and the state \<open>'w\<close> of the model server.
\<close>

record 'w world =
  console :: "string list"
  files :: "string \<Rightarrow> file_content option"
  dirs :: "string set"
  endpoint :: 'w

text \<open>
  The extractor (\<open>self\<close>) with its collaborators, which the program takes from libraries and
  from the operating system:
  \<^item> \<open>json_loads\<close> and \<open>lax\<close>, the reader and the coercions of the validation library;
  \<^item> \<open>create_model_error\<close>, the exception \<open>create_model\<close> raises for a dictionary of fields
    (it refuses certain names, a required field \<open>model_config\<close> for one), and
    \<open>reserved_name\<close>, the names it accepts without making them fields;
  \<^item> \<open>print_error\<close>, the exception \<open>console.print\<close> raises for a text: the console reads
    the text as markup and refuses, for one, a closing tag \<open>[/]\<close> that closes nothing;
  \<^item> \<open>chat\<close>, the call of the model server, which answers with
    \<open>response.message.content\<close> or raises;
  \<^item> reading a text file and a binary file, and the CSV reader;
  \<^item> \<open>dictwriter_error_text\<close>, the text of the ValueError of \<open>csv.DictWriter\<close> for the keys
    that are no columns (it lists them in an order that depends on hashing);
  \<^item> \<open>os.makedirs\<close> and opening a file for writing (\<open>None\<close>: no exception).
\<close>

record 'w extractor =
  text_model :: string
  vision_model :: string
  json_loads :: "string \<Rightarrow> json option"
  lax :: "prim \<Rightarrow> json \<Rightarrow> string + pyval"
  create_model_error :: "model \<Rightarrow> exn option"
  reserved_name :: "string \<Rightarrow> bool"
  print_error :: "string \<Rightarrow> exn option"
  chat :: "chat_request \<Rightarrow> 'w \<Rightarrow> (exn + string) \<times> 'w"
  read_text :: "string \<Rightarrow> exn + string"
  read_bytes :: "string \<Rightarrow> exn + string"
  csv_reader :: "string \<Rightarrow> exn + string list list"
  dictwriter_error_text :: "string list \<Rightarrow> string"
  makedirs :: "string \<Rightarrow> exn option"
  open_write :: "string \<Rightarrow> exn option"

text \<open>\<open>self.console.print(line)\<close>: the line is printed unless the console raises.\<close>

definition console_print :: "'w extractor \<Rightarrow> 'w world \<Rightarrow> string \<Rightarrow> (exn + unit) \<times> 'w world" where
  "console_print self w line =
     (case print_error self line of
        Some e \<Rightarrow> (Inl e, w)
      | None \<Rightarrow> (Inr (), w\<lparr>console := console w @ [line]\<rparr>))"

text \<open>\<open>self.console.print(line)\<close> followed by \<open>return v\<close>.\<close>

definition print_return ::
  "'w extractor \<Rightarrow> 'w world \<Rightarrow> string \<Rightarrow> 'a \<Rightarrow> (exn + 'a) \<times> 'w world" where
  "print_return self w line v =
     (case console_print self w line of
        (Inl e, w') \<Rightarrow> (Inl e, w')
      | (Inr u, w') \<Rightarrow> (Inr v, w'))"

section \<open>\<open>DynamicExtractor.get_dynamic_model\<close>\<close>

text \<open>A name with a leading underscore, which the validation library takes for a private
  attribute.\<close>

fun private_name :: "string \<Rightarrow> bool" where
  "private_name [] = False"
| "private_name (c # cs) = (c = CHR ''_'')"

text \<open>\<open>create_model('Entity', **model_fields)\<close>: the library raises for some dictionaries;
  otherwise the model has the entries of the dictionary, in its order, but those whose name
  is private or reserved.\<close>

definition create_model :: "'w extractor \<Rightarrow> model \<Rightarrow> exn + model" where
  "create_model self d =
     (case create_model_error self d of
        Some e \<Rightarrow> Inl e
      | None \<Rightarrow> Inr (filter (\<lambda>(n, t, dv). \<not> private_name n \<and> \<not> reserved_name self n) d))"

text \<open>Lines 38 to 63.\<close>

definition get_dynamic_model :: "'w extractor \<Rightarrow> field list \<Rightarrow> exn + model" where
  "get_dynamic_model self flds = create_model self (model_fields_dict flds)"

section \<open>\<open>DynamicExtractor._extract_structured_data\<close>\<close>

text \<open>Lines 77 to 97. The model is built before the \<open>try\<close> (line 77), so an exception of
  \<open>get_dynamic_model\<close> leaves the function; the two handlers are the two cases of \<open>Inl\<close>, and
  an exception of their \<open>print\<close> leaves the function too.\<close>

definition extract_structured_data ::
  "'w extractor \<Rightarrow> string \<Rightarrow> field list \<Rightarrow> string \<Rightarrow> 'w world \<Rightarrow>
   (exn + result list) \<times> 'w world" where
  "extract_structured_data self response_content model_fields input_context w =
     (case get_dynamic_model self model_fields of
        Inl e \<Rightarrow> (Inl e, w)
      | Inr Entity \<Rightarrow>
          (case model_validate_json (json_loads self) (lax self) Entity response_content of
             Inr entities \<Rightarrow>
               (Inr (map (\<lambda>item. \<lparr>input = input_context, response = item\<rparr>) entities), w)
           | Inl (ValidationError t) \<Rightarrow>
               print_return self w (''[bold red]Validation Error:[/] '' @ py_repr t) []
           | Inl (JSONDecodeError m) \<Rightarrow>
               print_return self w (''[bold red]JSON Decode Error:[/] '' @ m) []))"

section \<open>\<open>process_text\<close> and \<open>process_image\<close>\<close>

definition text_prompt :: "field list \<Rightarrow> string" where
  "text_prompt model_fields =
     ''Extract structured data based on these fields: '' @
     str_join '', '' (map name model_fields) @ [CHR 0x0A] @
     ''        Provide output as a JSON-compatible list of objects.''"

text \<open>The arguments of the chat call of lines 117 to 125.\<close>

definition text_request :: "'w extractor \<Rightarrow> model \<Rightarrow> field list \<Rightarrow> string \<Rightarrow> chat_request" where
  "text_request self Entity model_fields txt =
     \<lparr>model_name = text_model self, system_content = text_prompt model_fields,
      user_content = txt, images = [], response_format = Entity, temperature = 0\<rparr>"

text \<open>The body of \<open>try\<close>, lines 117 to 131.\<close>

definition process_text_try ::
  "'w extractor \<Rightarrow> model \<Rightarrow> string \<Rightarrow> field list \<Rightarrow> 'w world \<Rightarrow>
   (exn + result list) \<times> 'w world" where
  "process_text_try self Entity txt model_fields w =
     (case chat self (text_request self Entity model_fields txt) (endpoint w) of
        (Inl e, s) \<Rightarrow> (Inl e, w\<lparr>endpoint := s\<rparr>)
      | (Inr content, s) \<Rightarrow>
          extract_structured_data self content model_fields txt (w\<lparr>endpoint := s\<rparr>))"

text \<open>Lines 99 to 135. The model is built before the \<open>try\<close> (line 107); \<open>except Exception\<close>
  prints the exception and returns the empty list.\<close>

definition process_text ::
  "'w extractor \<Rightarrow> string \<Rightarrow> field list \<Rightarrow> 'w world \<Rightarrow> (exn + result list) \<times> 'w world" where
  "process_text self txt model_fields w =
     (case get_dynamic_model self model_fields of
        Inl e \<Rightarrow> (Inl e, w)
      | Inr Entity \<Rightarrow>
          (case process_text_try self Entity txt model_fields w of
             (Inr results, w') \<Rightarrow> (Inr results, w')
           | (Inl e, w') \<Rightarrow>
               print_return self w' (''[bold red]Error processing text:[/] '' @ exn_str e) []))"

definition image_prompt :: "field list \<Rightarrow> string" where
  "image_prompt model_fields =
     ''Analyze this image and extract structured data for these fields: '' @
     str_join '', '' (map name model_fields) @ [CHR 0x0A] @
     ''        Provide output as a JSON-compatible list of objects.''"

text \<open>The arguments of the chat call of lines 156 to 164, \<open>img\<close> being the bytes of the
  image file.\<close>

definition image_request :: "'w extractor \<Rightarrow> model \<Rightarrow> field list \<Rightarrow> string \<Rightarrow> chat_request" where
  "image_request self Entity model_fields img =
     \<lparr>model_name = vision_model self, system_content = image_prompt model_fields,
      user_content = [], images = [img], response_format = Entity, temperature = 0\<rparr>"

text \<open>The body of \<open>try\<close>, lines 155 to 170: the file is opened and read, the chat call is
  made, the answer goes through \<open>_extract_structured_data\<close>.\<close>

definition process_image_try ::
  "'w extractor \<Rightarrow> model \<Rightarrow> string \<Rightarrow> field list \<Rightarrow> 'w world \<Rightarrow>
   (exn + result list) \<times> 'w world" where
  "process_image_try self Entity image_path model_fields w =
     (case read_bytes self image_path of
        Inl e \<Rightarrow> (Inl e, w)
      | Inr img \<Rightarrow>
          (case chat self (image_request self Entity model_fields img) (endpoint w) of
             (Inl e, s) \<Rightarrow> (Inl e, w\<lparr>endpoint := s\<rparr>)
           | (Inr content, s) \<Rightarrow>
               extract_structured_data self content model_fields (basename image_path)
                 (w\<lparr>endpoint := s\<rparr>)))"

text \<open>Lines 137 to 174. The model is built before the \<open>try\<close> (line 145).\<close>

definition process_image ::
  "'w extractor \<Rightarrow> string \<Rightarrow> field list \<Rightarrow> 'w world \<Rightarrow> (exn + result list) \<times> 'w world" where
  "process_image self image_path model_fields w =
     (case get_dynamic_model self model_fields of
        Inl e \<Rightarrow> (Inl e, w)
      | Inr Entity \<Rightarrow>
          (case process_image_try self Entity image_path model_fields w of
             (Inr results, w') \<Rightarrow> (Inr results, w')
           | (Inl e, w') \<Rightarrow>
               print_return self w' (''[bold red]Error processing image:[/] '' @ exn_str e) []))"

section \<open>\<open>process_bulk_text\<close>\<close>

text \<open>The two \<open>for\<close> loops (lines 192 to 195 and 203 to 207) over the units of the file,
  \<open>results\<close> being the list that \<open>extend\<close> grows. The progress bar is not modelled.\<close>

fun process_units ::
  "'w extractor \<Rightarrow> field list \<Rightarrow> string list \<Rightarrow> result list \<Rightarrow> 'w world \<Rightarrow>
   (exn + result list) \<times> 'w world" where
  "process_units self model_fields [] results w = (Inr results, w)"
| "process_units self model_fields (txt # texts) results w =
     (if str_strip txt \<noteq> [] then
        (case process_text self txt model_fields w of
           (Inl e, w') \<Rightarrow> (Inl e, w')
         | (Inr text_results, w') \<Rightarrow>
             process_units self model_fields texts (results @ text_results) w')
      else process_units self model_fields texts results w)"

text \<open>The body of \<open>try\<close>, lines 188 to 209.\<close>

definition process_bulk_text_try ::
  "'w extractor \<Rightarrow> string \<Rightarrow> field list \<Rightarrow> 'w world \<Rightarrow> (exn + result list) \<times> 'w world" where
  "process_bulk_text_try self file_path model_fields w =
     (let file_ext = str_lower (snd (splitext file_path));
          results = []
      in if file_ext = ''.txt'' then
           (case read_text self file_path of
              Inl e \<Rightarrow> (Inl e, w)
            | Inr contents \<Rightarrow>
                process_units self model_fields (str_split contents '',,'') results w)
         else if file_ext = ''.csv'' then
           (case read_text self file_path of
              Inl e \<Rightarrow> (Inl e, w)
            | Inr contents \<Rightarrow>
                (case csv_reader self contents of
                   Inl e \<Rightarrow> (Inl e, w)
                 | Inr rows \<Rightarrow>
                     process_units self model_fields (map (str_join '' '') rows) results w))
         else (Inr results, w))"

text \<open>Lines 176 to 213.\<close>

definition process_bulk_text ::
  "'w extractor \<Rightarrow> string \<Rightarrow> field list \<Rightarrow> 'w world \<Rightarrow> (exn + result list) \<times> 'w world" where
  "process_bulk_text self file_path model_fields w =
     (case process_bulk_text_try self file_path model_fields w of
        (Inr results, w') \<Rightarrow> (Inr results, w')
      | (Inl e, w') \<Rightarrow>
          print_return self w' (''[bold red]Error processing bulk text:[/] '' @ exn_str e) [])"

section \<open>\<open>export_results\<close>\<close>

text \<open>\<open>writer.writerow(row)\<close> of a \<open>csv.DictWriter\<close>: a key of the row that is no column
  raises ValueError; otherwise the cells are the values of the columns, the empty string
  where the row has no such key.\<close>

definition writerow ::
  "'w extractor \<Rightarrow> string list \<Rightarrow> (string \<times> pyval) list \<Rightarrow> exn + pyval list" where
  "writerow self fieldnames row =
     (let wrong_fields = filter (\<lambda>k. k \<notin> set fieldnames) (map fst row)
      in if wrong_fields \<noteq> [] then
           Inl (ValueError (dictwriter_error_text self wrong_fields))
         else Inr (map (\<lambda>k. case map_of row k of Some v \<Rightarrow> v | None \<Rightarrow> VStr []) fieldnames))"

text \<open>The loop of lines 323 to 327 over the results. \<open>rows\<close> is what the file holds so far;
  when a row raises, the rows written before it stay in the file.\<close>

fun write_rows ::
  "'w extractor \<Rightarrow> string list \<Rightarrow> result list \<Rightarrow> pyval list list \<Rightarrow>
   (exn + unit) \<times> pyval list list" where
  "write_rows self fieldnames [] rows = (Inr (), rows)"
| "write_rows self fieldnames (item # items) rows =
     (case writerow self fieldnames
             (dict_update [(''input'', VStr (input item))] (response item)) of
        Inl e \<Rightarrow> (Inl e, rows)
      | Inr cells \<Rightarrow> write_rows self fieldnames items (rows @ [cells]))"

text \<open>The directory of line 298: \<open>os.path.dirname(output_file) or '.'\<close>.\<close>

definition export_dir :: "string \<Rightarrow> string" where
  "export_dir output_file = (if dirname output_file = [] then ''.'' else dirname output_file)"

text \<open>The body of \<open>try\<close>, lines 293 to 332. \<open>os.makedirs\<close> comes before the extension is
  looked at; opening a file for writing replaces what the file held; the lines are printed
  inside the \<open>try\<close>.\<close>

definition export_results_try ::
  "'w extractor \<Rightarrow> result list \<Rightarrow> string \<Rightarrow> 'w world \<Rightarrow> (exn + unit) \<times> 'w world" where
  "export_results_try self results output_file w =
     (let file_ext = str_lower (snd (splitext output_file));
          d = export_dir output_file
      in case makedirs self d of
           Some e \<Rightarrow> (Inl e, w)
         | None \<Rightarrow>
             (let w1 = w\<lparr>dirs := insert d (dirs w)\<rparr>
              in if file_ext = ''.json'' then
                   (case open_write self output_file of
                      Some e \<Rightarrow> (Inl e, w1)
                    | None \<Rightarrow>
                        print_return self
                          (w1\<lparr>files := (files w1)(output_file \<mapsto> JsonFile results)\<rparr>)
                          (''[bold green]Results exported to JSON: '' @ output_file @ ''[/]'')
                          ())
                 else if file_ext = ''.csv'' then
                   (case results of
                      [] \<Rightarrow> print_return self w1 ''[bold yellow]No results to export.[/]'' ()
                    | first # rest \<Rightarrow>
                        (let fieldnames = ''input'' # map fst (response first)
                         in case open_write self output_file of
                              Some e \<Rightarrow> (Inl e, w1)
                            | None \<Rightarrow>
                                (case write_rows self fieldnames results
                                        [map VStr fieldnames] of
                                   (Inl e, rows) \<Rightarrow>
                                     (Inl e, w1\<lparr>files := (files w1)(output_file \<mapsto> CsvFile rows)\<rparr>)
                                 | (Inr u, rows) \<Rightarrow>
                                     print_return self
                                       (w1\<lparr>files := (files w1)(output_file \<mapsto> CsvFile rows)\<rparr>)
                                       (''[bold green]Results exported to CSV: '' @
                                        output_file @ ''[/]'')
                                       ())))
                 else
                   print_return self w1
                     (''[bold red]Unsupported file format: '' @ file_ext @
                      ''. Use .json or .csv[/]'')
                     ()))"

text \<open>Lines 285 to 339: the three handlers, the most specific first.\<close>

definition export_results ::
  "'w extractor \<Rightarrow> result list \<Rightarrow> string \<Rightarrow> 'w world \<Rightarrow> (exn + unit) \<times> 'w world" where
  "export_results self results output_file w =
     (case export_results_try self results output_file w of
        (Inr u, w') \<Rightarrow> (Inr (), w')
      | (Inl (PermissionError m), w') \<Rightarrow>
          print_return self w'
            (''[bold red]Permission denied: Unable to write to '' @ output_file @ ''[/]'') ()
      | (Inl (OSError m), w') \<Rightarrow>
          print_return self w' (''[bold red]OS Error during export: '' @ m @ ''[/]'') ()
      | (Inl e, w') \<Rightarrow>
          print_return self w'
            (''[bold red]Unexpected error during export:[/] '' @ exn_str e) ())"

section \<open>Notions the claims are stated with\<close>

subsection \<open>Values\<close>

text \<open>What \<open>json.dumps\<close> writes for a Python value: the way back from a validated value to
  JSON.\<close>

fun to_json :: "pyval \<Rightarrow> json" where
  "to_json VNone = JNull"
| "to_json (VBool b) = JBool b"
| "to_json (VInt n) = JInt n"
| "to_json (VFloat r) = JFloat r"
| "to_json (VStr s) = JString s"
| "to_json (VList vs) = JArray (map to_json vs)"

text \<open>A validated value is the value that was supplied: written back as JSON it is the
  supplied value, or it is the float that equals a supplied integer.\<close>

fun same_prim :: "pyval \<Rightarrow> json \<Rightarrow> bool" where
  "same_prim (VFloat (Finite r)) (JInt n) = (r = of_int n)"
| "same_prim x v = (to_json x = v)"

fun same_value :: "pyval \<Rightarrow> json \<Rightarrow> bool" where
  "same_value (VList xs) (JArray vs) = list_all2 same_prim xs vs"
| "same_value x v = same_prim x v"

text \<open>The odd factor of a natural number.\<close>

fun odd_part :: "nat \<Rightarrow> nat" where
  "odd_part n = (if n = 0 then 0 else if even n then odd_part (n div 2) else n)"

declare odd_part.simps [simp del]

text \<open>An integer that is a double: its odd factor has at most 53 binary digits (integers
  of the 64-bit range are far below the largest double).\<close>

definition double_holds :: "int \<Rightarrow> bool" where
  "double_holds n = (odd_part (nat \<bar>n\<bar>) < 2 ^ 53)"

text \<open>A correctly typed value in the words of the specification: a JSON value of the type
  the field is declared with, an integer being accepted for a float.\<close>

fun compatible_prim :: "prim \<Rightarrow> json \<Rightarrow> bool" where
  "compatible_prim PStr (JString s) = True"
| "compatible_prim PInt (JInt n) = True"
| "compatible_prim PFloat (JFloat r) = True"
| "compatible_prim PFloat (JInt n) = True"
| "compatible_prim PBool (JBool b) = True"
| "compatible_prim p v = False"

fun compatible :: "ftype \<Rightarrow> json \<Rightarrow> bool" where
  "compatible (Prim p) v = compatible_prim p v"
| "compatible (ListOf p) (JArray xs) = list_all (compatible_prim p) xs"
| "compatible (ListOf p) v = False"

text \<open>A correctly typed value that is kept as it is: as before, but an integer given for
  a float is one of the 64-bit range that is a double.\<close>

fun conforms_prim :: "prim \<Rightarrow> json \<Rightarrow> bool" where
  "conforms_prim PStr (JString s) = True"
| "conforms_prim PInt (JInt n) = True"
| "conforms_prim PFloat (JFloat r) = True"
| "conforms_prim PFloat (JInt n) = (in_i64 n \<and> double_holds n)"
| "conforms_prim PBool (JBool b) = True"
| "conforms_prim p v = False"

fun conforms :: "ftype \<Rightarrow> json \<Rightarrow> bool" where
  "conforms (Prim p) v = conforms_prim p v"
| "conforms (ListOf p) (JArray xs) = list_all (conforms_prim p) xs"
| "conforms (ListOf p) v = False"

subsection \<open>Array elements and records\<close>

text \<open>An array element that supplies every required field of the declarations with a
  correctly typed value; nothing is asked of the optional fields.\<close>

fun supplies_required :: "model \<Rightarrow> json \<Rightarrow> bool" where
  "supplies_required declared (JObject kvs) =
     list_all (\<lambda>(n, t, d). d = DefaultNone \<or>
        (case map_of kvs n of Some v \<Rightarrow> compatible t v | None \<Rightarrow> False)) declared"
| "supplies_required declared v = False"

text \<open>An array element that lacks a required field of the declarations.\<close>

fun lacks_required :: "model \<Rightarrow> json \<Rightarrow> bool" where
  "lacks_required declared (JObject kvs) =
     list_ex (\<lambda>(n, t, d). d = Ellipsis \<and> map_of kvs n = None) declared"
| "lacks_required declared v = False"

text \<open>A well-formed array element for a model: an object in which every field of the
  model that is present has a correctly typed value that is kept as it is, and only
  optional fields are missing.\<close>

fun well_formed_element :: "model \<Rightarrow> json \<Rightarrow> bool" where
  "well_formed_element Entity (JObject kvs) =
     list_all (\<lambda>(n, t, d).
        case map_of kvs n of Some v \<Rightarrow> conforms t v | None \<Rightarrow> d = DefaultNone) Entity"
| "well_formed_element Entity v = False"

text \<open>A record preserves an array element: it has the fields of the model, in the model's
  order, and each of its values is the value the element gives for that field, or is
  \<open>None\<close> where the element has no such key.\<close>

fun preserves :: "model \<Rightarrow> json \<Rightarrow> (string \<times> pyval) list \<Rightarrow> bool" where
  "preserves Entity (JObject kvs) r =
     (map fst r = map fst Entity \<and>
      list_all (\<lambda>(n, x).
        case map_of kvs n of Some v \<Rightarrow> same_value x v | None \<Rightarrow> x = VNone) r)"
| "preserves Entity v r = False"

text \<open>A record has every field for an array element: it has the fields of the model, in the
  model's order, and holds \<open>None\<close> for every field the element has no key for.\<close>

fun has_every_field :: "model \<Rightarrow> json \<Rightarrow> (string \<times> pyval) list \<Rightarrow> bool" where
  "has_every_field Entity (JObject kvs) r =
     (map fst r = map fst Entity \<and>
      list_all (\<lambda>(n, x). map_of kvs n \<noteq> None \<or> x = VNone) r)"
| "has_every_field Entity v r = False"

subsection \<open>Units in order\<close>

text \<open>Units processed one after the other through \<open>process_text\<close>, each starting in the
  world the one before left, the results concatenated in the order of the units; an
  exception of a unit ends the run.\<close>

fun process_in_order ::
  "'w extractor \<Rightarrow> field list \<Rightarrow> string list \<Rightarrow> 'w world \<Rightarrow> (exn + result list) \<times> 'w world" where
  "process_in_order self model_fields [] w = (Inr [], w)"
| "process_in_order self model_fields (u # us) w =
     (case process_text self u model_fields w of
        (Inl e, w1) \<Rightarrow> (Inl e, w1)
      | (Inr r, w1) \<Rightarrow>
          (case process_in_order self model_fields us w1 of
             (Inl e, w2) \<Rightarrow> (Inl e, w2)
           | (Inr rs, w2) \<Rightarrow> (Inr (r @ rs), w2)))"

subsection \<open>JSON texts\<close>

text \<open>
  The grammar of JSON (RFC 8259) as an automaton with a stack that reads the text character
  by character. With \<open>ext\<close> the numbers \<open>NaN\<close>, \<open>Infinity\<close> and \<open>-Infinity\<close> are admitted
  as well.
\<close>

datatype container = InArray | InObject

datatype lexical =
    Value
  | ArrayStart
  | ObjectStart
  | Key
  | Colon
  | AfterValue
  | InString bool
  | Escape bool
  | Hex nat bool
  | Minus
  | Zero
  | Digits
  | FracStart
  | Frac
  | ExpStart
  | ExpSign
  | Exp
  | Literal string

definition json_ws :: "char \<Rightarrow> bool" where
  "json_ws c = (c = CHR '' '' \<or> c = CHR 0x09 \<or> c = CHR 0x0A \<or> c = CHR 0x0D)"

definition json_digit :: "char \<Rightarrow> bool" where
  "json_digit c = (48 \<le> (of_char c :: nat) \<and> (of_char c :: nat) \<le> 57)"

definition json_hex :: "char \<Rightarrow> bool" where
  "json_hex c =
     (json_digit c \<or> (65 \<le> (of_char c :: nat) \<and> (of_char c :: nat) \<le> 70) \<or>
      (97 \<le> (of_char c :: nat) \<and> (of_char c :: nat) \<le> 102))"

text \<open>After a value: white space, a comma or the end of the enclosing array or object.\<close>

definition after_value :: "container list \<Rightarrow> char \<Rightarrow> (lexical \<times> container list) option" where
  "after_value stack c =
     (if json_ws c then Some (AfterValue, stack)
      else if c = CHR '','' then
        (case stack of
           [] \<Rightarrow> None
         | InArray # st \<Rightarrow> Some (Value, stack)
         | InObject # st \<Rightarrow> Some (Key, stack))
      else if c = CHR '']'' then
        (case stack of InArray # st \<Rightarrow> Some (AfterValue, st) | _ \<Rightarrow> None)
      else if c = CHR ''}'' then
        (case stack of InObject # st \<Rightarrow> Some (AfterValue, st) | _ \<Rightarrow> None)
      else None)"

text \<open>The first character of a value.\<close>

definition start_value ::
  "bool \<Rightarrow> container list \<Rightarrow> char \<Rightarrow> (lexical \<times> container list) option" where
  "start_value ext stack c =
     (if c = CHR ''{'' then Some (ObjectStart, InObject # stack)
      else if c = CHR ''['' then Some (ArrayStart, InArray # stack)
      else if c = CHR 0x22 then Some (InString False, stack)
      else if c = CHR ''-'' then Some (Minus, stack)
      else if c = CHR ''0'' then Some (Zero, stack)
      else if json_digit c then Some (Digits, stack)
      else if c = CHR ''t'' then Some (Literal ''rue'', stack)
      else if c = CHR ''f'' then Some (Literal ''alse'', stack)
      else if c = CHR ''n'' then Some (Literal ''ull'', stack)
      else if ext \<and> c = CHR ''N'' then Some (Literal ''aN'', stack)
      else if ext \<and> c = CHR ''I'' then Some (Literal ''nfinity'', stack)
      else None)"

fun json_step ::
  "bool \<Rightarrow> lexical \<Rightarrow> container list \<Rightarrow> char \<Rightarrow> (lexical \<times> container list) option" where
  "json_step ext Value stack c =
     (if json_ws c then Some (Value, stack) else start_value ext stack c)"
| "json_step ext ArrayStart stack c =
     (if json_ws c then Some (ArrayStart, stack)
      else if c = CHR '']'' then Some (AfterValue, tl stack)
      else start_value ext stack c)"
| "json_step ext ObjectStart stack c =
     (if json_ws c then Some (ObjectStart, stack)
      else if c = CHR ''}'' then Some (AfterValue, tl stack)
      else if c = CHR 0x22 then Some (InString True, stack)
      else None)"
| "json_step ext Key stack c =
     (if json_ws c then Some (Key, stack)
      else if c = CHR 0x22 then Some (InString True, stack)
      else None)"
| "json_step ext Colon stack c =
     (if json_ws c then Some (Colon, stack)
      else if c = CHR '':'' then Some (Value, stack)
      else None)"
| "json_step ext AfterValue stack c = after_value stack c"
| "json_step ext (InString k) stack c =
     (if c = CHR 0x22 then Some (if k then Colon else AfterValue, stack)
      else if c = CHR 0x5C then Some (Escape k, stack)
      else if (of_char c :: nat) < 32 then None
      else Some (InString k, stack))"
| "json_step ext (Escape k) stack c =
     (if c = CHR ''u'' then Some (Hex 4 k, stack)
      else if c \<in> set [CHR 0x22, CHR 0x5C, CHR ''/'', CHR ''b'', CHR ''f'', CHR ''n'',
                       CHR ''r'', CHR ''t'']
      then Some (InString k, stack)
      else None)"
| "json_step ext (Hex i k) stack c =
     (if json_hex c then Some (if i \<le> 1 then InString k else Hex (i - 1) k, stack) else None)"
| "json_step ext Minus stack c =
     (if c = CHR ''0'' then Some (Zero, stack)
      else if json_digit c then Some (Digits, stack)
      else if ext \<and> c = CHR ''I'' then Some (Literal ''nfinity'', stack)
      else None)"
| "json_step ext Zero stack c =
     (if c = CHR ''.'' then Some (FracStart, stack)
      else if c = CHR ''e'' \<or> c = CHR ''E'' then Some (ExpStart, stack)
      else after_value stack c)"
| "json_step ext Digits stack c =
     (if json_digit c then Some (Digits, stack)
      else if c = CHR ''.'' then Some (FracStart, stack)
      else if c = CHR ''e'' \<or> c = CHR ''E'' then Some (ExpStart, stack)
      else after_value stack c)"
| "json_step ext FracStart stack c = (if json_digit c then Some (Frac, stack) else None)"
| "json_step ext Frac stack c =
     (if json_digit c then Some (Frac, stack)
      else if c = CHR ''e'' \<or> c = CHR ''E'' then Some (ExpStart, stack)
      else after_value stack c)"
| "json_step ext ExpStart stack c =
     (if json_digit c then Some (Exp, stack)
      else if c = CHR ''+'' \<or> c = CHR ''-'' then Some (ExpSign, stack)
      else None)"
| "json_step ext ExpSign stack c = (if json_digit c then Some (Exp, stack) else None)"
| "json_step ext Exp stack c =
     (if json_digit c then Some (Exp, stack) else after_value stack c)"
| "json_step ext (Literal []) stack c = after_value stack c"
| "json_step ext (Literal (x # xs)) stack c =
     (if c = x then Some (if xs = [] then AfterValue else Literal xs, stack) else None)"

text \<open>The automaton run over a text; it has read a JSON text when it ends after a value
  with nothing left open.\<close>

fun json_run :: "bool \<Rightarrow> lexical \<Rightarrow> container list \<Rightarrow> string \<Rightarrow> bool" where
  "json_run ext st stack [] =
     (stack = [] \<and> (st = AfterValue \<or> st = Zero \<or> st = Digits \<or> st = Frac \<or> st = Exp))"
| "json_run ext st stack (c # cs) =
     (case json_step ext st stack c of
        None \<Rightarrow> False
      | Some (st', stack') \<Rightarrow> json_run ext st' stack' cs)"

definition json_text :: "string \<Rightarrow> bool" where
  "json_text s = json_run False Value [] s"

definition json_text_ext :: "string \<Rightarrow> bool" where
  "json_text_ext s = json_run True Value [] s"

section \<open>Collaborators for the worked examples\<close>

text \<open>A reader that knows the documents of the examples and accepts no other text.\<close>

definition example_loads :: "string \<Rightarrow> json option" where
  \<open>example_loads s =
     (if s = ''{"Entities":[{"title":"A"},{"title":"B"}]}'' then
        Some (JObject [(''Entities'',
          JArray [JObject [(''title'', JString ''A'')], JObject [(''title'', JString ''B'')]])])
      else if s = ''{"Entities":[{"note":"x"}]}'' then
        Some (JObject [(''Entities'', JArray [JObject [(''note'', JString ''x'')]])])
      else if s = ''{"Entities":[{"title":"A","year":null}]}'' then
        Some (JObject [(''Entities'',
          JArray [JObject [(''title'', JString ''A''), (''year'', JNull)]])])
      else if s = ''{"Entities":[{"title":"A"}]}'' then
        Some (JObject [(''Entities'', JArray [JObject [(''title'', JString ''A'')]])])
      else if s = ''{"items":[{"title":"A"}]}'' then
        Some (JObject [(''items'', JArray [JObject [(''title'', JString ''A'')]])])
      else if s = ''{"Entities":[{"score":NaN}]}'' then
        Some (JObject [(''Entities'', JArray [JObject [(''score'', JFloat NaN)]])])
      else if s = ''{"Entities":[{"score":9007199254740993}]}'' then
        Some (JObject [(''Entities'',
          JArray [JObject [(''score'', JInt 9007199254740993)]])])
      else if s = ''{"Entities":[{"y":1}]}'' then
        Some (JObject [(''Entities'', JArray [JObject [(''y'', JInt 1)]])])
      else if s = ''{"Entities":[{"_x":"a","y":1}]}'' then
        Some (JObject [(''Entities'',
          JArray [JObject [(''_x'', JString ''a''), (''y'', JInt 1)]])])
      else if s = ''{"Entities":[{"model_config":"a"}]}'' then
        Some (JObject [(''Entities'', JArray [JObject [(''model_config'', JString ''a'')]])])
      else None)\<close>

text \<open>The texts of the exceptions of the examples.\<close>

definition ellipsis_text :: string where
  "ellipsis_text = py_repr ''ellipsis'' @ '' object is not iterable''"

definition no_such_file_text :: "string \<Rightarrow> string" where
  "no_such_file_text path = ''[Errno 2] No such file or directory: '' @ py_repr path"

definition closes_nothing_text :: "string \<Rightarrow> string" where
  "closes_nothing_text position =
     ''closing tag '' @ py_repr ''[/]'' @ '' at position '' @ position @
     '' has nothing to close''"

text \<open>
  An extractor whose model server answers every request with the same document and counts
  the requests. Its validation library coerces nothing beyond what the model of the library
  fixes, refuses a required field \<open>model_config\<close> and reserves that name. Its console refuses
  the two lines of the examples in which the path brings a closing tag that closes nothing.
  The readable text files are \<open>units.txt\<close> and \<open>notes.txt\<close>, no image can be read, and
  every directory can be created but those beginning with \<open>/exports\<close>, which the user may
  not create, and \<open>/dev/null\<close>, which is no directory; every file can be written.
\<close>

definition example_extractor :: "nat extractor" where
  \<open>example_extractor =
     \<lparr>text_model = ''llama3'',
      vision_model = ''llama3.2-vision'',
      json_loads = example_loads,
      lax = (\<lambda>p v. Inl ''type_error''),
      create_model_error =
        (\<lambda>d. case map_of d ''model_config'' of
                Some (t, Ellipsis) \<Rightarrow> Some (TypeError ellipsis_text)
              | _ \<Rightarrow> None),
      reserved_name = (\<lambda>n. n = ''model_config''),
      print_error =
        (\<lambda>line.
           if line = ''[bold red]Error processing image:[/] '' @
                     no_such_file_text ''pics/[/]cat.png''
           then Some (MarkupError (closes_nothing_text ''80''))
           else if line = ''[bold red]Permission denied: Unable to write to '' @
                          ''/exports[/]/results.csv'' @ ''[/]''
           then Some (MarkupError (closes_nothing_text ''71''))
           else None),
      chat = (\<lambda>request s. (Inr ''{"Entities":[{"title":"A"}]}'', Suc s)),
      read_text = (\<lambda>path. if path = ''units.txt'' then Inr ''foo,,bar,,''
                           else if path = ''notes.txt'' then Inr ''foo,, ,,bar''
                           else Inl (OSError (no_such_file_text path))),
      read_bytes = (\<lambda>path. Inl (OSError (no_such_file_text path))),
      csv_reader = (\<lambda>contents. Inr []),
      dictwriter_error_text =
        (\<lambda>wrong. ''dict contains fields not in fieldnames: '' @
                  str_join '', '' (map py_repr wrong)),
      makedirs = (\<lambda>d. if take 8 d = ''/exports''
                       then Some (PermissionError ''[Errno 13] Permission denied'')
                       else if d = ''/dev/null''
                       then Some (OSError (''[Errno 17] File exists: '' @ py_repr ''/dev/null''))
                       else None),
      open_write = (\<lambda>path. None)\<rparr>\<close>

text \<open>Three more extractors that can read images: the model server of the first cannot be
  reached, that of the second answers with prose, that of the third as before.\<close>

definition offline_extractor :: "nat extractor" where
  "offline_extractor =
     example_extractor
       \<lparr>chat := (\<lambda>request s. (Inl (Exception ''Failed to connect to Ollama''), Suc s)),
        read_bytes := (\<lambda>path. Inr ''GIF89a'')\<rparr>"

definition chatty_extractor :: "nat extractor" where
  "chatty_extractor =
     example_extractor
       \<lparr>chat := (\<lambda>request s. (Inr ''I see a cat.'', Suc s)),
        read_bytes := (\<lambda>path. Inr ''GIF89a'')\<rparr>"

definition viewer_extractor :: "nat extractor" where
  "viewer_extractor = example_extractor\<lparr>read_bytes := (\<lambda>path. Inr ''GIF89a'')\<rparr>"

definition example_world :: "nat world" where
  "example_world = \<lparr>console = [], files = (\<lambda>path. None), dirs = {}, endpoint = 0\<rparr>"

text \<open>The schema of the specification's examples, and others.\<close>

definition title_schema :: "field list" where
  "title_schema = [\<lparr>name = ''title'', type = ''str'', optional = False\<rparr>]"

definition title_year_schema :: "field list" where
  "title_year_schema =
     [\<lparr>name = ''title'', type = ''str'', optional = False\<rparr>,
      \<lparr>name = ''year'', type = ''int'', optional = True\<rparr>]"

definition score_schema :: "field list" where
  "score_schema = [\<lparr>name = ''score'', type = ''float'', optional = False\<rparr>]"

definition private_schema :: "field list" where
  "private_schema =
     [\<lparr>name = ''_x'', type = ''str'', optional = False\<rparr>,
      \<lparr>name = ''y'', type = ''int'', optional = False\<rparr>]"

definition private_optional_schema :: "field list" where
  "private_optional_schema =
     [\<lparr>name = ''_x'', type = ''str'', optional = True\<rparr>,
      \<lparr>name = ''y'', type = ''int'', optional = False\<rparr>]"

definition refused_schema :: "field list" where
  "refused_schema = [\<lparr>name = ''model_config'', type = ''str'', optional = False\<rparr>]"
section \<open>Facts about the dictionary of fields\<close>

lemma map_of_dict_set: "map_of (dict_set d k v) = (map_of d)(k \<mapsto> v)"
  by (induction d k v rule: dict_set.induct) auto

lemma keys_dict_set:
  "map fst (dict_set d k v) = (if k \<in> fst ` set d then map fst d else map fst d @ [k])"
  by (induction d k v rule: dict_set.induct) auto

lemma dict_set_fresh: "k \<notin> fst ` set d \<Longrightarrow> dict_set d k v = d @ [(k, v)]"
  by (induction d k v rule: dict_set.induct) auto

lemma keys_add_field:
  "map fst (add_field m f) = (if name f \<in> fst ` set m then map fst m else map fst m @ [name f])"
  by (simp add: add_field_def keys_dict_set)

lemma map_of_add_field:
  "map_of (add_field m f) =
     (map_of m)(name f \<mapsto> (field_type (type f), if optional f then DefaultNone else Ellipsis))"
  by (simp add: add_field_def map_of_dict_set)

lemma model_fields_dict_snoc:
  "model_fields_dict (flds @ [f]) = add_field (model_fields_dict flds) f"
  by (simp add: model_fields_dict_def)

lemma keys_model_fields_dict:
  "map fst (model_fields_dict flds) = rev (remdups (rev (map name flds)))"
proof (induction flds rule: rev_induct)
  case Nil
  show ?case by (simp add: model_fields_dict_def)
next
  case (snoc f flds)
  have "fst ` set (model_fields_dict flds) = name ` set flds"
    using arg_cong [OF snoc.IH, of set] by simp
  with snoc.IH show ?case
    by (simp add: model_fields_dict_snoc keys_add_field)
qed

lemma map_of_model_fields_dict:
  "map_of (model_fields_dict flds) =
     map_of (rev (map (\<lambda>f. (name f, field_type (type f),
       if optional f then DefaultNone else Ellipsis)) flds))"
proof (induction flds rule: rev_induct)
  case Nil
  show ?case by (simp add: model_fields_dict_def)
next
  case (snoc f flds)
  then show ?case
    by (simp add: model_fields_dict_snoc map_of_add_field)
qed

lemma distinct_keys_model_fields_dict: "distinct (map fst (model_fields_dict flds))"
  by (simp add: keys_model_fields_dict)

text \<open>With pairwise different names the model is the declaration list, field by field.\<close>

lemma model_fields_dict_distinct:
  "distinct (map name flds) \<Longrightarrow>
   model_fields_dict flds =
     map (\<lambda>f. (name f, field_type (type f), if optional f then DefaultNone else Ellipsis)) flds"
proof (induction flds rule: rev_induct)
  case Nil
  show ?case by (simp add: model_fields_dict_def)
next
  case (snoc f flds)
  then have "name f \<notin> fst ` set (model_fields_dict flds)"
    by (force simp: image_iff)
  with snoc show ?case
    by (simp add: model_fields_dict_snoc add_field_def dict_set_fresh)
qed

lemma py_in_snoc:
  assumes "c \<notin> set sub" "sub \<noteq> []"
  shows "py_in sub (xs @ [c]) = py_in sub xs"
proof (induction xs)
  case Nil
  from assms show ?case by (cases sub) auto
next
  case (Cons x xs)
  have "(take (length sub) (x # xs @ [c]) = sub) = (take (length sub) (x # xs) = sub)"
  proof (cases "length sub \<le> length (x # xs)")
    case True
    then have "take (length sub) ((x # xs) @ [c]) = take (length sub) (x # xs)"
      by (simp del: append_Cons)
    then show ?thesis by simp
  next
    case False
    then have "take (length sub) (x # xs @ [c]) = x # xs @ [c]"
      and "length (take (length sub) (x # xs)) < length sub" by simp_all
    moreover have "c \<in> set (x # xs @ [c])" by simp
    ultimately show ?thesis using assms(1) by (metis less_irrefl)
  qed
  with Cons show ?case by simp
qed


section \<open>Facts about validation\<close>

lemma bit_length_le: "a < 2 ^ k \<Longrightarrow> bit_length a \<le> k"
proof (induction k arbitrary: a)
  case 0
  then show ?case by (simp add: bit_length.simps)
next
  case (Suc k)
  show ?case
  proof (cases "a = 0")
    case True
    then show ?thesis by (simp add: bit_length.simps)
  next
    case False
    from Suc.prems have "a div 2 < 2 ^ k" by simp
    then have "bit_length (a div 2) \<le> k" by (rule Suc.IH)
    with False show ?thesis by (subst bit_length.simps) simp
  qed
qed

lemma odd_part_dvd: "odd_part a < 2 ^ k \<Longrightarrow> 2 ^ (bit_length a - k) dvd a"
proof (induction a rule: odd_part.induct)
  case (1 n)
  show ?case
  proof (cases "n = 0")
    case True
    then show ?thesis by simp
  next
    case nz: False
    show ?thesis
    proof (cases "even n")
      case False
      with nz "1.prems" have "n < 2 ^ k" by (simp add: odd_part.simps)
      then have "bit_length n \<le> k" by (rule bit_length_le)
      then show ?thesis by simp
    next
      case True
      with nz "1.prems" have "odd_part (n div 2) < 2 ^ k" by (simp add: odd_part.simps)
      with nz True have d: "2 ^ (bit_length (n div 2) - k) dvd n div 2" by (rule "1.IH")
      from nz have b: "bit_length n = Suc (bit_length (n div 2))"
        by (subst bit_length.simps) simp
      from True have n: "n = 2 * (n div 2)" by simp
      from d have "2 * 2 ^ (bit_length (n div 2) - k) dvd 2 * (n div 2)"
        by (rule mult_dvd_mono [OF dvd_refl])
      with n have "(2::nat) ^ Suc (bit_length (n div 2) - k) dvd n" by simp
      moreover have "(2::nat) ^ (bit_length n - k) dvd 2 ^ Suc (bit_length (n div 2) - k)"
        using b by (intro le_imp_power_dvd) simp
      ultimately show ?thesis by (rule dvd_trans [rotated])
    qed
  qed
qed

lemma int_to_double_exact:
  assumes "double_holds n"
  shows "int_to_double n = of_int n"
proof -
  let ?a = "nat \<bar>n\<bar>"
  let ?e = "bit_length ?a - 53"
  from assms have d: "2 ^ ?e dvd ?a"
    unfolding double_holds_def by (rule odd_part_dvd)
  then have r: "?a mod 2 ^ ?e = 0" by simp
  from d have q: "?a div 2 ^ ?e * 2 ^ ?e = ?a" by simp
  have c: "\<not> (2 * (0::nat) > 2 ^ ?e \<or> (2 * (0::nat) = 2 ^ ?e \<and> odd (?a div 2 ^ ?e)))"
    by simp
  have "int_to_double n = of_int (sgn n * int (?a div 2 ^ ?e * 2 ^ ?e))"
    unfolding int_to_double_def Let_def r if_not_P [OF c] ..
  also have "\<dots> = of_int (sgn n * int ?a)"
    by (simp only: q)
  also have "\<dots> = of_int n"
    by (simp add: sgn_if)
  finally show ?thesis .
qed

lemma first_error_map_Inr:
  "first_error (map f xs) = Inr ys \<Longrightarrow> list_all2 (\<lambda>x y. f x = Inr y) xs ys"
proof (induction xs arbitrary: ys)
  case Nil
  then show ?case by simp
next
  case (Cons x xs)
  then show ?case
    by (cases "f x") (auto split: sum.splits)
qed

lemma first_error_map_Inl:
  "x \<in> set xs \<Longrightarrow> f x = Inl e \<Longrightarrow> \<exists>e'. first_error (map f xs) = Inl e'"
proof (induction xs)
  case Nil
  then show ?case by simp
next
  case (Cons y ys)
  then show ?case
    by (cases "f y") (auto split: sum.splits)
qed

lemma validate_prim_conforms:
  assumes "conforms_prim p v"
  shows "\<exists>x. validate_prim lx p v = Inr x \<and> same_prim x v \<and> same_value x v"
proof (cases p)
  case PStr
  with assms show ?thesis by (cases v) simp_all
next
  case PInt
  with assms show ?thesis by (cases v) simp_all
next
  case PBool
  with assms show ?thesis by (cases v) simp_all
next
  case PFloat
  with assms show ?thesis
    by (cases v) (simp_all add: int_to_double_exact)
qed

lemma validate_prims_conform:
  "list_all (conforms_prim p) xs \<Longrightarrow>
   \<exists>vs. first_error (map (validate_prim lx p) xs) = Inr vs \<and> list_all2 same_prim vs xs"
proof (induction xs)
  case Nil
  show ?case by simp
next
  case (Cons x xs)
  then obtain vs where vs: "first_error (map (validate_prim lx p) xs) = Inr vs"
    "list_all2 same_prim vs xs"
    by auto
  from Cons.prems obtain y where "validate_prim lx p x = Inr y" "same_prim y x"
    using validate_prim_conforms [where p = p and v = x and lx = lx] by auto
  with vs show ?case by simp
qed

lemma validate_value_conforms:
  "conforms t v \<Longrightarrow> \<exists>x. validate_value lx t v = Inr x \<and> same_value x v"
proof (cases t)
  case (Prim p)
  assume "conforms t v"
  with Prim show ?thesis using validate_prim_conforms [where p = p and v = v and lx = lx] by auto
next
  case (ListOf p)
  assume c: "conforms t v"
  with ListOf obtain xs where v: "v = JArray xs" by (cases v) auto
  with c ListOf obtain vs where "first_error (map (validate_prim lx p) xs) = Inr vs"
    "list_all2 same_prim vs xs"
    using validate_prims_conform [where p = p and xs = xs and lx = lx] by auto
  with v ListOf show ?thesis by simp
qed

lemma validate_field_well_formed:
  assumes "case map_of kvs n of Some v \<Rightarrow> conforms t v | None \<Rightarrow> d = DefaultNone"
  shows "\<exists>x. validate_field lx kvs (n, t, d) = Inr (n, x) \<and>
             (case map_of kvs n of Some v \<Rightarrow> same_value x v | None \<Rightarrow> x = VNone)"
proof (cases "map_of kvs n")
  case None
  with assms show ?thesis by simp
next
  case (Some v)
  with assms obtain x where "validate_value lx t v = Inr x" "same_value x v"
    using validate_value_conforms [where t = t and v = v and lx = lx] by auto
  with Some show ?thesis by simp
qed

lemma validate_fields_well_formed:
  "list_all (\<lambda>(n, t, d).
      case map_of kvs n of Some v \<Rightarrow> conforms t v | None \<Rightarrow> d = DefaultNone) fs \<Longrightarrow>
   \<exists>r. first_error (map (validate_field lx kvs) fs) = Inr r \<and>
       map fst r = map fst fs \<and>
       list_all (\<lambda>(n, x).
         case map_of kvs n of Some v \<Rightarrow> same_value x v | None \<Rightarrow> x = VNone) r"
proof (induction fs)
  case Nil
  show ?case by simp
next
  case (Cons fld fs)
  obtain n t d where fld: "fld = (n, t, d)" by (cases fld)
  from Cons obtain r where r: "first_error (map (validate_field lx kvs) fs) = Inr r"
    "map fst r = map fst fs"
    "list_all (\<lambda>(n, x). case map_of kvs n of Some v \<Rightarrow> same_value x v | None \<Rightarrow> x = VNone) r"
    by auto
  from Cons.prems fld obtain x where x: "validate_field lx kvs (n, t, d) = Inr (n, x)"
    "case map_of kvs n of Some v \<Rightarrow> same_value x v | None \<Rightarrow> x = VNone"
    using validate_field_well_formed [where kvs = kvs and n = n and t = t and d = d and lx = lx] by auto
  show ?case
    by (rule exI [of _ "(n, x) # r"]) (use fld r x in simp)
qed

lemma validate_entity_well_formed:
  assumes "well_formed_element Entity el"
  shows "\<exists>r. validate_entity lx Entity el = Inr r \<and> preserves Entity el r"
proof -
  from assms obtain kvs where el: "el = JObject kvs" by (cases el) auto
  with assms show ?thesis
    using validate_fields_well_formed [where kvs = kvs and fs = Entity and lx = lx] by auto
qed

lemma validate_entities_well_formed:
  "list_all (well_formed_element Entity) elems \<Longrightarrow>
   \<exists>rs. first_error (map (validate_entity lx Entity) elems) = Inr rs \<and>
        list_all2 (preserves Entity) elems rs"
proof (induction elems)
  case Nil
  show ?case by simp
next
  case (Cons el elems)
  then obtain rs where rs: "first_error (map (validate_entity lx Entity) elems) = Inr rs"
    "list_all2 (preserves Entity) elems rs" by auto
  from Cons.prems obtain r where r: "validate_entity lx Entity el = Inr r" "preserves Entity el r"
    using validate_entity_well_formed [where Entity = Entity and el = el and lx = lx] by auto
  show ?case
    by (rule exI [of _ "r # rs"]) (use rs r in simp)
qed

lemma validate_field_name:
  "validate_field lx kvs fld = Inr y \<Longrightarrow>
   fst y = fst fld \<and> (map_of kvs (fst y) \<noteq> None \<or> snd y = VNone)"
  by (cases fld) (auto split: option.splits sum.splits default_value.splits)

lemma validate_fields_complete:
  "list_all2 (\<lambda>fld y. validate_field lx kvs fld = Inr y) fs r \<Longrightarrow>
   map fst r = map fst fs \<and> list_all (\<lambda>(n, x). map_of kvs n \<noteq> None \<or> x = VNone) r"
proof (induction fs r rule: list_all2_induct)
  case Nil
  show ?case by simp
next
  case (Cons fld fs y r)
  then show ?case
    using validate_field_name [where lx = lx and kvs = kvs and fld = fld and y = y] by (cases y) auto
qed

lemma validate_entity_complete:
  assumes "validate_entity lx Entity el = Inr r"
  shows "has_every_field Entity el r"
proof -
  from assms obtain kvs where el: "el = JObject kvs" by (cases el) auto
  with assms have "list_all2 (\<lambda>fld y. validate_field lx kvs fld = Inr y) Entity r"
    by (simp add: first_error_map_Inr)
  with el show ?thesis
    using validate_fields_complete [where lx = lx and kvs = kvs and fs = Entity and r = r] by simp
qed

lemma validate_entities_complete:
  assumes "first_error (map (validate_entity lx Entity) elems) = Inr rs"
  shows "list_all2 (has_every_field Entity) elems rs"
proof -
  from assms have "list_all2 (\<lambda>el r. validate_entity lx Entity el = Inr r) elems rs"
    by (rule first_error_map_Inr)
  then show ?thesis
    by (rule list_all2_mono) (rule validate_entity_complete)
qed

lemma validate_entity_missing:
  assumes "(n, t, Ellipsis) \<in> set Entity" "map_of kvs n = None"
  shows "\<exists>e. validate_entity lx Entity (JObject kvs) = Inl e"
proof -
  from assms(2) have "validate_field lx kvs (n, t, Ellipsis) = Inl ''missing''" by simp
  with assms(1) show ?thesis
    using first_error_map_Inl [where x = "(n, t, Ellipsis)" and xs = Entity and f = "validate_field lx kvs"] by simp
qed

section \<open>Facts about strings and the operations\<close>

lemma str_strip_empty: "str_strip s = [] \<longleftrightarrow> list_all isspace s"
proof -
  have "str_strip s = [] \<longleftrightarrow> (\<forall>x\<in>set (dropWhile isspace s). isspace x)"
    by (simp add: str_strip_def)
  also have "\<dots> \<longleftrightarrow> dropWhile isspace s = []"
  proof
    assume a: "\<forall>x\<in>set (dropWhile isspace s). isspace x"
    show "dropWhile isspace s = []"
    proof (rule ccontr)
      assume ne: "dropWhile isspace s \<noteq> []"
      then have "\<not> isspace (hd (dropWhile isspace s))" by (rule hd_dropWhile)
      moreover from ne have "hd (dropWhile isspace s) \<in> set (dropWhile isspace s)"
        by (rule hd_in_set)
      ultimately show False using a by blast
    qed
  next
    assume e: "dropWhile isspace s = []"
    show "\<forall>x\<in>set (dropWhile isspace s). isspace x"
      unfolding e by simp
  qed
  also have "\<dots> \<longleftrightarrow> list_all isspace s"
    by (simp add: list_all_iff)
  finally show ?thesis .
qed

lemma split_from_no_sep: "\<not> py_in sep s \<Longrightarrow> split_from sep unit s = [unit @ s]"
  by (induction s arbitrary: unit) auto

lemma str_split_no_sep: "\<not> py_in sep s \<Longrightarrow> str_split s sep = [s]"
  by (simp add: str_split_def split_from_no_sep)

lemma split_from_first_sep:
  assumes "sep \<noteq> []"
  shows "\<not> py_in sep (u @ butlast sep) \<Longrightarrow>
         split_from sep unit (u @ sep @ rest) = (unit @ u) # split_from sep [] rest"
proof (induction u arbitrary: unit)
  case Nil
  from assms obtain c cs where "sep = c # cs" by (cases sep) auto
  then show ?case by simp
next
  case (Cons c u)
  let ?n = "length sep"
  from assms have len: "?n \<le> length (c # u @ butlast sep)" by simp
  from Cons.prems have ne: "take ?n (c # u @ butlast sep) \<noteq> sep"
    and rest: "\<not> py_in sep (u @ butlast sep)" by simp_all
  from assms have "c # u @ sep @ rest = (c # u @ butlast sep) @ (last sep # rest)"
    by simp
  then have "take ?n (c # u @ sep @ rest) = take ?n ((c # u @ butlast sep) @ (last sep # rest))"
    by (rule arg_cong)
  also from len have "\<dots> = take ?n (c # u @ butlast sep)"
    by (simp del: append_Cons)
  finally have "take ?n (c # u @ sep @ rest) \<noteq> sep" using ne by simp
  then have "split_from sep unit ((c # u) @ sep @ rest) =
      split_from sep (unit @ [c]) (u @ sep @ rest)" by simp
  also from rest have "\<dots> = ((unit @ [c]) @ u) # split_from sep [] rest"
    by (rule Cons.IH)
  finally show ?case by simp
qed

lemma str_split_first_sep:
  "sep \<noteq> [] \<Longrightarrow> \<not> py_in sep (u @ butlast sep) \<Longrightarrow>
   str_split (u @ sep @ rest) sep = u # str_split rest sep"
  using split_from_first_sep [where unit = "[]"] by (simp add: str_split_def)

lemma process_units_in_order:
  "process_units self model_fields texts results w =
     (case process_in_order self model_fields (filter (\<lambda>u. \<not> list_all isspace u) texts) w of
        (Inl e, w') \<Rightarrow> (Inl e, w')
      | (Inr rs, w') \<Rightarrow> (Inr (results @ rs), w'))"
proof (induction texts arbitrary: results w)
  case Nil
  show ?case by simp
next
  case (Cons u us)
  show ?case
  proof (cases "list_all isspace u")
    case True
    with Cons show ?thesis by (simp add: str_strip_empty)
  next
    case False
    obtain r w1 where r: "process_text self u model_fields w = (r, w1)"
      by (cases "process_text self u model_fields w")
    show ?thesis
    proof (cases r)
      case (Inl e)
      with False r show ?thesis by (simp add: str_strip_empty)
    next
      case (Inr text_results)
      obtain rs w2 where rs:
        "process_in_order self model_fields (filter (\<lambda>u. \<not> list_all isspace u) us) w1 = (rs, w2)"
        by (cases "process_in_order self model_fields (filter (\<lambda>u. \<not> list_all isspace u) us) w1")
      from False r Inr rs Cons [of "results @ text_results" w1] show ?thesis
        by (cases rs) (simp_all add: str_strip_empty)
    qed
  qed
qed

lemma write_rows_extends:
  "write_rows self fieldnames items rows = (r, rows') \<Longrightarrow> \<exists>more. rows' = rows @ more"
proof (induction items arbitrary: rows)
  case Nil
  then show ?case by simp
next
  case (Cons item items)
  show ?case
  proof (cases "writerow self fieldnames
      (dict_update [(''input'', VStr (input item))] (response item))")
    case (Inl e)
    with Cons.prems show ?thesis by simp
  next
    case (Inr cells)
    with Cons.prems have "write_rows self fieldnames items (rows @ [cells]) = (r, rows')"
      by simp
    then have "\<exists>more. rows' = (rows @ [cells]) @ more" by (rule Cons.IH)
    then obtain more where "rows' = (rows @ [cells]) @ more" ..
    then show ?thesis by simp
  qed
qed

lemma keys_filter_model:
  "map fst (filter (\<lambda>(n, t, dv). P n) (d :: model)) = filter P (map fst d)"
  by (induction d) auto

lemma keys_created_model:
  assumes "get_dynamic_model self flds = Inr Entity"
  shows "map fst Entity =
           filter (\<lambda>n. \<not> private_name n \<and> \<not> reserved_name self n)
             (rev (remdups (rev (map name flds))))"
proof -
  from assms have "Entity =
      filter (\<lambda>(n, t, dv). \<not> private_name n \<and> \<not> reserved_name self n) (model_fields_dict flds)"
    by (auto simp: get_dynamic_model_def create_model_def split: option.splits)
  then have "map fst Entity =
      filter (\<lambda>n. \<not> private_name n \<and> \<not> reserved_name self n) (map fst (model_fields_dict flds))"
    by (simp only: keys_filter_model)
  then show ?thesis
    by (simp only: keys_model_fields_dict)
qed

lemma validate_entity_lacks:
  assumes "lacks_required Entity el"
  shows "\<exists>e. validate_entity lx Entity el = Inl e"
proof -
  from assms obtain kvs where el: "el = JObject kvs" by (cases el) auto
  with assms obtain n t where "(n, t, Ellipsis) \<in> set Entity" "map_of kvs n = None"
    by (auto simp: list_ex_iff)
  then have "\<exists>e. validate_entity lx Entity (JObject kvs) = Inl e"
    by (rule validate_entity_missing)
  with el show ?thesis by simp
qed

lemma files_print_return: "files (snd (print_return self w line v)) = files w"
  by (simp add: print_return_def console_print_def split: option.splits)

lemma print_return_raises:
  "print_return self w line v = (Inl x, w') \<Longrightarrow> \<exists>line. print_error self line = Some x"
  by (auto simp: print_return_def console_print_def split: option.splits)

lemma print_return_prints:
  "print_error self line = None \<Longrightarrow>
   print_return self w line v = (Inr v, w\<lparr>console := console w @ [line]\<rparr>)"
  by (simp add: print_return_def console_print_def)

lemma export_results_raises:
  assumes "export_results self results output_file w = (Inl x, w')"
  shows "\<exists>line. print_error self line = Some x"
proof -
  obtain r w1 where t: "export_results_try self results output_file w = (r, w1)"
    by (cases "export_results_try self results output_file w")
  show ?thesis
  proof (cases r)
    case (Inr u)
    with t assms show ?thesis by (simp add: export_results_def)
  next
    case (Inl e)
    with t assms show ?thesis
      by (cases e) (auto simp: export_results_def dest: print_return_raises)
  qed
qed

lemma export_results_try_empty_csv:
  assumes "str_lower (snd (splitext output_file)) = ''.csv''"
  shows "export_results_try self [] output_file w =
           (case makedirs self (export_dir output_file) of
              Some e \<Rightarrow> (Inl e, w)
            | None \<Rightarrow>
                print_return self (w\<lparr>dirs := insert (export_dir output_file) (dirs w)\<rparr>)
                  ''[bold yellow]No results to export.[/]'' ())"
  using assms by (simp add: export_results_try_def Let_def split: option.splits)

lemma export_results_empty_csv_files:
  assumes "str_lower (snd (splitext output_file)) = ''.csv''"
  shows "files (snd (export_results self [] output_file w)) = files w"
proof (cases "makedirs self (export_dir output_file)")
  case None
  let ?w1 = "w\<lparr>dirs := insert (export_dir output_file) (dirs w)\<rparr>"
  obtain r w2 where p: "print_return self ?w1 ''[bold yellow]No results to export.[/]'' () =
      (r, w2)"
    by (cases "print_return self ?w1 ''[bold yellow]No results to export.[/]'' ()")
  have "files (snd (print_return self ?w1 ''[bold yellow]No results to export.[/]'' ())) =
      files ?w1"
    by (rule files_print_return)
  with p have f: "files w2 = files w" by simp
  from p have "r = Inr () \<or> (\<exists>x. r = Inl x \<and> w2 = ?w1)"
    by (auto simp: print_return_def console_print_def split: option.splits)
  then show ?thesis
  proof
    assume "r = Inr ()"
    with None p f show ?thesis
      by (simp add: export_results_def export_results_try_empty_csv [OF assms])
  next
    assume "\<exists>x. r = Inl x \<and> w2 = ?w1"
    then obtain x where x: "r = Inl x" "w2 = ?w1" by blast
    with None p show ?thesis
      by (cases x)
        (simp_all add: export_results_def export_results_try_empty_csv [OF assms]
          files_print_return)
  qed
next
  case (Some e)
  then show ?thesis
    by (cases e)
      (simp_all add: export_results_def export_results_try_empty_csv [OF assms]
        files_print_return)
qed


lemma export_results_files:
  "files (snd (export_results self results output_file w)) =
   files (snd (export_results_try self results output_file w))"
proof -
  obtain r w1 where t: "export_results_try self results output_file w = (r, w1)"
    by (cases "export_results_try self results output_file w")
  show ?thesis
  proof (cases r)
    case (Inr u)
    with t show ?thesis by (simp add: export_results_def)
  next
    case (Inl e)
    with t show ?thesis
      by (cases e) (simp_all add: export_results_def files_print_return)
  qed
qed

lemma export_results_try_csv_files:
  assumes "str_lower (snd (splitext output_file)) = ''.csv''"
    and "makedirs self (export_dir output_file) = None"
    and "open_write self output_file = None"
    and "write_rows self (''input'' # map fst (response first)) (first # rest)
           [map VStr (''input'' # map fst (response first))] = (r, rows)"
  shows "files (snd (export_results_try self (first # rest) output_file w)) output_file =
           Some (CsvFile rows)"
proof (cases r)
  case (Inl e)
  with assms show ?thesis
    by (simp add: export_results_try_def Let_def del: write_rows.simps)
next
  case (Inr u)
  with assms show ?thesis
    by (simp add: export_results_try_def Let_def files_print_return del: write_rows.simps)
qed

section \<open>Facts about the collaborators of the examples\<close>

lemma example_models:
  "get_dynamic_model example_extractor [] = Inr []"
  "get_dynamic_model example_extractor title_schema = Inr [(''title'', Prim PStr, Ellipsis)]"
  "get_dynamic_model example_extractor title_year_schema =
     Inr [(''title'', Prim PStr, Ellipsis), (''year'', Prim PInt, DefaultNone)]"
  "get_dynamic_model example_extractor score_schema = Inr [(''score'', Prim PFloat, Ellipsis)]"
  "get_dynamic_model example_extractor private_schema = Inr [(''y'', Prim PInt, Ellipsis)]"
  "get_dynamic_model example_extractor private_optional_schema =
     Inr [(''y'', Prim PInt, Ellipsis)]"
  "get_dynamic_model example_extractor refused_schema = Inl (TypeError ellipsis_text)"
  by (simp_all add: get_dynamic_model_def create_model_def model_fields_dict_def add_field_def
      field_type_def example_extractor_def title_schema_def title_year_schema_def
      score_schema_def private_schema_def private_optional_schema_def refused_schema_def)

lemma other_models:
  "get_dynamic_model offline_extractor title_schema = Inr [(''title'', Prim PStr, Ellipsis)]"
  "get_dynamic_model chatty_extractor title_schema = Inr [(''title'', Prim PStr, Ellipsis)]"
  "get_dynamic_model viewer_extractor title_schema = Inr [(''title'', Prim PStr, Ellipsis)]"
  by (simp_all add: get_dynamic_model_def create_model_def model_fields_dict_def add_field_def
      field_type_def example_extractor_def offline_extractor_def chatty_extractor_def
      viewer_extractor_def title_schema_def)

lemma example_dicts:
  "model_fields_dict title_schema = [(''title'', Prim PStr, Ellipsis)]"
  "model_fields_dict title_year_schema =
     [(''title'', Prim PStr, Ellipsis), (''year'', Prim PInt, DefaultNone)]"
  "model_fields_dict score_schema = [(''score'', Prim PFloat, Ellipsis)]"
  "model_fields_dict private_schema =
     [(''_x'', Prim PStr, Ellipsis), (''y'', Prim PInt, Ellipsis)]"
  "model_fields_dict private_optional_schema =
     [(''_x'', Prim PStr, DefaultNone), (''y'', Prim PInt, Ellipsis)]"
  "model_fields_dict refused_schema = [(''model_config'', Prim PStr, Ellipsis)]"
  by (simp_all add: model_fields_dict_def add_field_def field_type_def title_schema_def
      title_year_schema_def score_schema_def private_schema_def private_optional_schema_def
      refused_schema_def)

lemma example_reader:
  \<open>json_loads example_extractor = example_loads\<close>
  \<open>json_loads offline_extractor = example_loads\<close>
  \<open>json_loads chatty_extractor = example_loads\<close>
  \<open>json_loads viewer_extractor = example_loads\<close>
  \<open>lax example_extractor = (\<lambda>p v. Inl ''type_error'')\<close>
  by (simp_all add: example_extractor_def offline_extractor_def chatty_extractor_def
      viewer_extractor_def no_such_file_text_def)

lemma example_console:
  "print_error example_extractor =
     (\<lambda>line.
        if line = ''[bold red]Error processing image:[/] '' @
                  no_such_file_text ''pics/[/]cat.png''
        then Some (MarkupError (closes_nothing_text ''80''))
        else if line = ''[bold red]Permission denied: Unable to write to '' @
                       ''/exports[/]/results.csv'' @ ''[/]''
        then Some (MarkupError (closes_nothing_text ''71''))
        else None)"
  "print_error offline_extractor = print_error example_extractor"
  "print_error chatty_extractor = print_error example_extractor"
  "print_error viewer_extractor = print_error example_extractor"
  by (simp_all add: example_extractor_def offline_extractor_def chatty_extractor_def
      viewer_extractor_def)

lemma example_documents:
  \<open>example_loads ''{"Entities":[{"title":"A"},{"title":"B"}]}'' =
     Some (JObject [(''Entities'',
       JArray [JObject [(''title'', JString ''A'')], JObject [(''title'', JString ''B'')]])])\<close>
  \<open>example_loads ''{"Entities":[{"note":"x"}]}'' =
     Some (JObject [(''Entities'', JArray [JObject [(''note'', JString ''x'')]])])\<close>
  \<open>example_loads ''{"Entities":[{"title":"A","year":null}]}'' =
     Some (JObject [(''Entities'',
       JArray [JObject [(''title'', JString ''A''), (''year'', JNull)]])])\<close>
  \<open>example_loads ''{"Entities":[{"title":"A"}]}'' =
     Some (JObject [(''Entities'', JArray [JObject [(''title'', JString ''A'')]])])\<close>
  \<open>example_loads ''{"items":[{"title":"A"}]}'' =
     Some (JObject [(''items'', JArray [JObject [(''title'', JString ''A'')]])])\<close>
  \<open>example_loads ''{"Entities":[{"score":NaN}]}'' =
     Some (JObject [(''Entities'', JArray [JObject [(''score'', JFloat NaN)]])])\<close>
  \<open>example_loads ''{"Entities":[{"score":9007199254740993}]}'' =
     Some (JObject [(''Entities'', JArray [JObject [(''score'', JInt 9007199254740993)]])])\<close>
  \<open>example_loads ''{"Entities":[{"y":1}]}'' =
     Some (JObject [(''Entities'', JArray [JObject [(''y'', JInt 1)]])])\<close>
  \<open>example_loads ''{"Entities":[{"_x":"a","y":1}]}'' =
     Some (JObject [(''Entities'',
       JArray [JObject [(''_x'', JString ''a''), (''y'', JInt 1)]])])\<close>
  \<open>example_loads ''{"Entities":[{"model_config":"a"}]}'' =
     Some (JObject [(''Entities'', JArray [JObject [(''model_config'', JString ''a'')]])])\<close>
  \<open>example_loads ''{"Entities":[{"title":'' = None\<close>
  \<open>example_loads ''I see a cat.'' = None\<close>
  by (simp_all add: example_loads_def)

lemmas json_automaton =
  json_text_def json_text_ext_def start_value_def after_value_def json_ws_def json_digit_def
  json_hex_def

lemma example_texts:
  \<open>json_text ''{"Entities":[{"title":"A"},{"title":"B"}]}''\<close>
  \<open>json_text ''{"Entities":[{"note":"x"}]}''\<close>
  \<open>json_text ''{"Entities":[{"title":"A","year":null}]}''\<close>
  \<open>json_text ''{"Entities":[{"title":"A"}]}''\<close>
  \<open>json_text ''{"items":[{"title":"A"}]}''\<close>
  \<open>\<not> json_text ''{"Entities":[{"score":NaN}]}''\<close>
  \<open>json_text ''{"Entities":[{"score":9007199254740993}]}''\<close>
  \<open>json_text ''{"Entities":[{"y":1}]}''\<close>
  \<open>json_text ''{"Entities":[{"_x":"a","y":1}]}''\<close>
  \<open>json_text ''{"Entities":[{"model_config":"a"}]}''\<close>
  \<open>\<not> json_text ''{"Entities":[{"title":''\<close>
  \<open>\<not> json_text_ext ''{"Entities":[{"title":''\<close>
  \<open>\<not> json_text_ext ''I see a cat.''\<close>
  by (simp_all add: json_automaton)

lemma example_loads_within_grammar: "example_loads s \<noteq> None \<Longrightarrow> json_text_ext s"
  by (auto simp: example_loads_def json_automaton split: if_splits)

lemma bit_length_example: "bit_length 9007199254740993 = 54"
  by (simp add: bit_length.simps)

lemma int_to_double_example: "int_to_double 9007199254740993 = 9007199254740992"
  by (simp add: int_to_double_def Let_def bit_length_example)

lemma example_extractions:
  \<open>extract_structured_data example_extractor ''{"Entities":[{"title":"A"},{"title":"B"}]}''
       title_schema input_context example_world =
     (Inr [\<lparr>input = input_context, response = [(''title'', VStr ''A'')]\<rparr>,
           \<lparr>input = input_context, response = [(''title'', VStr ''B'')]\<rparr>], example_world)\<close>
  \<open>extract_structured_data example_extractor ''{"Entities":[{"note":"x"}]}''
       title_schema input_context example_world =
     (Inr [], example_world
        \<lparr>console := [''[bold red]Validation Error:[/] '' @ py_repr ''missing'']\<rparr>)\<close>
  \<open>extract_structured_data example_extractor ''{"Entities":[{"title":"A","year":null}]}''
       title_year_schema input_context example_world =
     (Inr [], example_world
        \<lparr>console := [''[bold red]Validation Error:[/] '' @ py_repr ''int_type'']\<rparr>)\<close>
  \<open>extract_structured_data example_extractor ''{"Entities":[{"title":"A"}]}''
       title_year_schema input_context example_world =
     (Inr [\<lparr>input = input_context,
            response = [(''title'', VStr ''A''), (''year'', VNone)]\<rparr>], example_world)\<close>
  \<open>extract_structured_data example_extractor ''{"items":[{"title":"A"}]}''
       title_schema input_context example_world =
     (Inr [], example_world
        \<lparr>console := [''[bold red]Validation Error:[/] '' @ py_repr ''missing'']\<rparr>)\<close>
  \<open>extract_structured_data example_extractor ''{"Entities":[{"score":NaN}]}''
       score_schema input_context example_world =
     (Inr [\<lparr>input = input_context, response = [(''score'', VFloat NaN)]\<rparr>], example_world)\<close>
  \<open>extract_structured_data example_extractor ''{"Entities":[{"score":9007199254740993}]}''
       score_schema input_context example_world =
     (Inr [\<lparr>input = input_context,
            response = [(''score'', VFloat (Finite 9007199254740992))]\<rparr>], example_world)\<close>
  \<open>extract_structured_data example_extractor ''{"Entities":[{"y":1}]}''
       private_schema input_context example_world =
     (Inr [\<lparr>input = input_context, response = [(''y'', VInt 1)]\<rparr>], example_world)\<close>
  \<open>extract_structured_data example_extractor ''{"Entities":[{"y":1}]}''
       private_optional_schema input_context example_world =
     (Inr [\<lparr>input = input_context, response = [(''y'', VInt 1)]\<rparr>], example_world)\<close>
  \<open>extract_structured_data example_extractor ''{"Entities":[{"_x":"a","y":1}]}''
       private_schema input_context example_world =
     (Inr [\<lparr>input = input_context, response = [(''y'', VInt 1)]\<rparr>], example_world)\<close>
  \<open>extract_structured_data example_extractor ''{"Entities":[{"model_config":"a"}]}''
       refused_schema input_context example_world =
     (Inl (TypeError ellipsis_text), example_world)\<close>
  \<open>extract_structured_data example_extractor ''{"Entities":[{"title":''
       title_schema input_context example_world =
     (Inr [], example_world
        \<lparr>console := [''[bold red]Validation Error:[/] '' @ py_repr ''json_invalid'']\<rparr>)\<close>
  by (simp_all add: extract_structured_data_def example_models example_reader
      example_documents model_validate_json_def print_return_def console_print_def
      example_console example_world_def in_i64_def int_to_double_example
      no_such_file_text_def py_repr_def)

section \<open>Facts about the files, paths and answers of the examples\<close>

lemma example_paths:
  "str_lower (snd (splitext ''units.txt'')) = ''.txt''"
  "str_lower (snd (splitext ''notes.txt'')) = ''.txt''"
  "str_lower (snd (splitext ''notes.json'')) = ''.json''"
  "str_lower (snd (splitext ''out/results.csv'')) = ''.csv''"
  "str_lower (snd (splitext ''/exports/results.csv'')) = ''.csv''"
  "str_lower (snd (splitext ''/exports[/]/results.csv'')) = ''.csv''"
  "export_dir ''out/results.csv'' = ''out''"
  "export_dir ''/exports/results.csv'' = ''/exports''"
  "export_dir ''/exports[/]/results.csv'' = ''/exports[/]''"
  "str_lower (snd (splitext ''/dev/null/results.csv'')) = ''.csv''"
  "export_dir ''/dev/null/results.csv'' = ''/dev/null''"
  by (simp_all add: splitext_def rfind_def str_lower_def lower_char_def export_dir_def
      dirname_def basename_def)

lemma example_units:
  "str_split ''foo,,bar,,'' '',,'' = [''foo'', ''bar'', '''']"
  "str_split ''foo,, ,,bar'' '',,'' = [''foo'', '' '', ''bar'']"
  "filter (\<lambda>u. \<not> list_all isspace u) [''foo'', ''bar'', ''''] = [''foo'', ''bar'']"
  "filter (\<lambda>u. \<not> list_all isspace u) [''foo'', '' '', ''bar''] = [''foo'', ''bar'']"
  by (simp_all add: str_split_def isspace_def)

lemma example_files:
  "read_text example_extractor ''units.txt'' = Inr ''foo,,bar,,''"
  "read_text example_extractor ''notes.txt'' = Inr ''foo,, ,,bar''"
  "read_bytes example_extractor path = Inl (OSError (no_such_file_text path))"
  "read_bytes offline_extractor path = Inr ''GIF89a''"
  "read_bytes chatty_extractor path = Inr ''GIF89a''"
  "read_bytes viewer_extractor path = Inr ''GIF89a''"
  "makedirs example_extractor ''out'' = None"
  "makedirs example_extractor ''/exports'' =
     Some (PermissionError ''[Errno 13] Permission denied'')"
  "makedirs example_extractor ''/exports[/]'' =
     Some (PermissionError ''[Errno 13] Permission denied'')"
  "makedirs example_extractor ''/dev/null'' =
     Some (OSError (''[Errno 17] File exists: '' @ py_repr ''/dev/null''))"
  "open_write example_extractor path = None"
  by (simp_all add: example_extractor_def offline_extractor_def chatty_extractor_def
      viewer_extractor_def)

lemma example_chat:
  \<open>chat example_extractor request s = (Inr ''{"Entities":[{"title":"A"}]}'', Suc s)\<close>
  \<open>chat offline_extractor request s = (Inl (Exception ''Failed to connect to Ollama''), Suc s)\<close>
  \<open>chat chatty_extractor request s = (Inr ''I see a cat.'', Suc s)\<close>
  \<open>chat viewer_extractor request s = (Inr ''{"Entities":[{"title":"A"}]}'', Suc s)\<close>
  by (simp_all add: example_extractor_def offline_extractor_def chatty_extractor_def
      viewer_extractor_def)

lemma example_process_text:
  \<open>process_text example_extractor u title_schema w =
     (Inr [\<lparr>input = u, response = [(''title'', VStr ''A'')]\<rparr>],
      w\<lparr>endpoint := Suc (endpoint w)\<rparr>)\<close>
  \<open>process_text example_extractor u refused_schema w = (Inl (TypeError ellipsis_text), w)\<close>
  by (simp_all add: process_text_def process_text_try_def extract_structured_data_def
      example_models example_reader example_documents model_validate_json_def example_chat)

section \<open>Claims about the dynamic model\<close>

text \<open>
  C4. The claim: building the model fails with a schema error when the field list is empty
  or names a field twice. \<open>get_dynamic_model\<close> has no such check: with a validation library
  that refuses neither an empty model nor the name \<open>title\<close>, it returns the model with no
  fields for the empty list, and a model that holds \<open>title\<close> once for a list that declares
  \<open>title\<close> twice.
\<close>

theorem get_dynamic_model_accepts_empty_and_duplicate:
  "get_dynamic_model example_extractor [] = Inr [] \<and>
   get_dynamic_model example_extractor
     [\<lparr>name = ''title'', type = ''str'', optional = False\<rparr>,
      \<lparr>name = ''title'', type = ''int'', optional = True\<rparr>] =
     Inr [(''title'', Prim PInt, DefaultNone)]"
  by (simp add: get_dynamic_model_def create_model_def model_fields_dict_def add_field_def
      field_type_def example_extractor_def)

text \<open>
  C4, as the code has it. \<open>get_dynamic_model\<close> checks neither that there is a field nor
  that the names differ. It stores the declarations in a dictionary, which is empty for the
  empty list and holds a repeated name once, at the place of its first declaration, with
  the type and the default of its last declaration; the dictionary goes to \<open>create_model\<close>.
  When that raises (which it does for particular names), \<open>get_dynamic_model\<close> raises the
  same exception; otherwise it returns the model of the entries that the library keeps as
  fields, which leaves out the names with a leading underscore and the reserved ones.
\<close>

theorem get_dynamic_model_last_declaration_wins:
  "model_fields_dict [] = [] \<and>
   map fst (model_fields_dict flds) = rev (remdups (rev (map name flds))) \<and>
   distinct (map fst (model_fields_dict flds)) \<and>
   map_of (model_fields_dict flds) =
     map_of (rev (map (\<lambda>f. (name f, field_type (type f),
       if optional f then DefaultNone else Ellipsis)) flds)) \<and>
   (create_model_error self (model_fields_dict flds) = None \<longrightarrow>
      get_dynamic_model self flds =
        Inr (filter (\<lambda>(n, t, dv). \<not> private_name n \<and> \<not> reserved_name self n)
               (model_fields_dict flds))) \<and>
   (create_model_error self (model_fields_dict flds) = Some e \<longrightarrow>
      get_dynamic_model self flds = Inl e)"
proof -
  have "model_fields_dict [] = []"
    by (simp add: model_fields_dict_def)
  then show ?thesis
    using keys_model_fields_dict [of flds] distinct_keys_model_fields_dict [of flds]
      map_of_model_fields_dict [of flds]
    by (simp add: get_dynamic_model_def create_model_def)
qed

theorem get_dynamic_model_last_declaration_wins_witness:
  "create_model_error example_extractor (model_fields_dict private_schema) = None \<and>
   get_dynamic_model example_extractor private_schema = Inr [(''y'', Prim PInt, Ellipsis)] \<and>
   create_model_error example_extractor (model_fields_dict refused_schema) =
     Some (TypeError ellipsis_text) \<and>
   get_dynamic_model example_extractor refused_schema = Inl (TypeError ellipsis_text)"
proof -
  have a: "create_model_error example_extractor (model_fields_dict private_schema) = None"
    by (simp add: example_dicts example_extractor_def)
  have b: "create_model_error example_extractor (model_fields_dict refused_schema) =
     Some (TypeError ellipsis_text)"
    by (simp add: example_dicts example_extractor_def)
  from a get_dynamic_model_last_declaration_wins [of private_schema example_extractor]
  have c: "get_dynamic_model example_extractor private_schema = Inr [(''y'', Prim PInt, Ellipsis)]"
    by (simp add: example_dicts example_extractor_def)
  from b get_dynamic_model_last_declaration_wins
    [of refused_schema example_extractor "TypeError ellipsis_text"]
  have d: "get_dynamic_model example_extractor refused_schema = Inl (TypeError ellipsis_text)"
    by simp
  from a c b d show ?thesis by (intro conjI)
qed

text \<open>
  C5. The claim: a kind string that names an unrecognized primitive resolves to a string
  field, and \<open>list(X)\<close> with an unrecognized \<open>X\<close> to a list of strings. The code looks for
  the words \<open>list\<close>, \<open>int\<close>, \<open>float\<close> and \<open>bool\<close> anywhere in the kind string, so \<open>playlist\<close>
  resolves to a list of strings and \<open>list(point)\<close> to a list of integers.
\<close>

theorem field_type_substring_counterexample:
  "get_dynamic_model example_extractor
     [\<lparr>name = ''x'', type = ''playlist'', optional = False\<rparr>] =
     Inr [(''x'', ListOf PStr, Ellipsis)] \<and>
   get_dynamic_model example_extractor
     [\<lparr>name = ''x'', type = ''list(point)'', optional = False\<rparr>] =
     Inr [(''x'', ListOf PInt, Ellipsis)]"
  by (simp add: get_dynamic_model_def create_model_def model_fields_dict_def add_field_def
      field_type_def example_extractor_def)

text \<open>
  C5, as the code has it. A kind string other than \<open>int\<close>, \<open>float\<close> and \<open>bool\<close> in which
  \<open>list\<close> does not occur resolves to a string field. \<open>list(X)\<close> resolves to a list whose
  items are integers if \<open>int\<close> occurs in \<open>X\<close>, else floats if \<open>float\<close> occurs in \<open>X\<close>, else
  booleans if \<open>bool\<close> occurs in \<open>X\<close>, else strings; so \<open>list(int)\<close>, \<open>list(float)\<close>, \<open>list(bool)\<close>
  and \<open>list(str)\<close> resolve to lists of the primitive they name.
\<close>

theorem field_type_resolution:
  "(t \<noteq> ''int'' \<and> t \<noteq> ''float'' \<and> t \<noteq> ''bool'' \<and> \<not> py_in ''list'' t
      \<longrightarrow> field_type t = Prim PStr) \<and>
   field_type (''list('' @ X @ '')'') =
     ListOf (if py_in ''int'' X then PInt
             else if py_in ''float'' X then PFloat
             else if py_in ''bool'' X then PBool
             else PStr) \<and>
   field_type ''list(int)'' = ListOf PInt \<and>
   field_type ''list(float)'' = ListOf PFloat \<and>
   field_type ''list(bool)'' = ListOf PBool \<and>
   field_type ''list(str)'' = ListOf PStr"
proof -
  have i: "py_in ''int'' (X @ '')'') = py_in ''int'' X"
    by (rule py_in_snoc) simp_all
  have f: "py_in ''float'' (X @ '')'') = py_in ''float'' X"
    by (rule py_in_snoc) simp_all
  have b: "py_in ''bool'' (X @ '')'') = py_in ''bool'' X"
    by (rule py_in_snoc) simp_all
  have "field_type (''list('' @ X @ '')'') =
     ListOf (if py_in ''int'' X then PInt
             else if py_in ''float'' X then PFloat
             else if py_in ''bool'' X then PBool
             else PStr)"
    by (simp add: field_type_def i f b)
  moreover have "field_type ''list(int)'' = ListOf PInt"
    "field_type ''list(float)'' = ListOf PFloat"
    "field_type ''list(bool)'' = ListOf PBool"
    "field_type ''list(str)'' = ListOf PStr"
    by (simp_all add: field_type_def)
  ultimately show ?thesis
    by (simp add: field_type_def)
qed

theorem field_type_resolution_witness:
  "(''date'' \<noteq> ''int'' \<and> ''date'' \<noteq> ''float'' \<and> ''date'' \<noteq> ''bool'' \<and> \<not> py_in ''list'' ''date'') \<and>
   field_type ''date'' = Prim PStr \<and>
   field_type (''list('' @ ''uint8'' @ '')'') = ListOf PInt \<and>
   field_type (''list('' @ ''date'' @ '')'') = ListOf PStr"
  using field_type_resolution [of "''date''" "''uint8''"] field_type_resolution [of "''date''" "''date''"]
  by simp

section \<open>Claims about \<open>_extract_structured_data\<close>\<close>

text \<open>
  C1. The claim: when the response is a JSON object whose array holds objects that supply
  every required field with a correctly typed value, there is one record per array element,
  in order, with the values preserved. It fails in five ways, each a JSON text whose element
  supplies every required field of the declarations with a correctly typed value:
  \<^item> an optional integer field \<open>year\<close> given as \<open>null\<close> is validated against its declared
    type, and the call returns no record;
  \<^item> an array under the key \<open>items\<close> is not found, the key has to be \<open>Entities\<close>;
  \<^item> the integer \<open>9007199254740993\<close> given for a float field becomes the double
    \<open>9007199254740992\<close>;
  \<^item> a required field \<open>model_config\<close> makes \<open>create_model\<close> raise, and the exception leaves
    the function;
  \<^item> a field \<open>_x\<close> is no field of the model, and the record has no entry for it.
\<close>

theorem required_fields_alone_counterexample:
  \<open>json_text ''{"Entities":[{"title":"A","year":null}]}'' \<and>
   list_all (supplies_required (model_fields_dict title_year_schema))
     [JObject [(''title'', JString ''A''), (''year'', JNull)]] \<and>
   extract_structured_data example_extractor ''{"Entities":[{"title":"A","year":null}]}''
       title_year_schema ''some text'' example_world =
     (Inr [], example_world
        \<lparr>console := [''[bold red]Validation Error:[/] '' @ py_repr ''int_type'']\<rparr>) \<and>
   json_text ''{"items":[{"title":"A"}]}'' \<and>
   list_all (supplies_required (model_fields_dict title_schema))
     [JObject [(''title'', JString ''A'')]] \<and>
   extract_structured_data example_extractor ''{"items":[{"title":"A"}]}''
       title_schema ''some text'' example_world =
     (Inr [], example_world
        \<lparr>console := [''[bold red]Validation Error:[/] '' @ py_repr ''missing'']\<rparr>) \<and>
   json_text ''{"Entities":[{"score":9007199254740993}]}'' \<and>
   list_all (supplies_required (model_fields_dict score_schema))
     [JObject [(''score'', JInt 9007199254740993)]] \<and>
   extract_structured_data example_extractor ''{"Entities":[{"score":9007199254740993}]}''
       score_schema ''some text'' example_world =
     (Inr [\<lparr>input = ''some text'',
            response = [(''score'', VFloat (Finite 9007199254740992))]\<rparr>], example_world) \<and>
   \<not> same_value (VFloat (Finite 9007199254740992)) (JInt 9007199254740993) \<and>
   json_text ''{"Entities":[{"model_config":"a"}]}'' \<and>
   list_all (supplies_required (model_fields_dict refused_schema))
     [JObject [(''model_config'', JString ''a'')]] \<and>
   extract_structured_data example_extractor ''{"Entities":[{"model_config":"a"}]}''
       refused_schema ''some text'' example_world =
     (Inl (TypeError ellipsis_text), example_world) \<and>
   json_text ''{"Entities":[{"_x":"a","y":1}]}'' \<and>
   list_all (supplies_required (model_fields_dict private_schema))
     [JObject [(''_x'', JString ''a''), (''y'', JInt 1)]] \<and>
   extract_structured_data example_extractor ''{"Entities":[{"_x":"a","y":1}]}''
       private_schema ''some text'' example_world =
     (Inr [\<lparr>input = ''some text'', response = [(''y'', VInt 1)]\<rparr>], example_world)\<close>
  by (simp add: example_texts example_dicts example_extractions)

text \<open>
  C1, as the code has it. When the model for the declared fields can be built, the response
  is read as an object whose key \<open>Entities\<close> holds an array, and every array element is
  well-formed for the model (an object in which every field of the model that is present,
  required or optional, has a value of the declared JSON type, or for a float an integer of
  the 64-bit range that is a double, and in which only optional fields are missing), then
  the call prints nothing and returns one result per array element, in array order. Each
  record has the fields of the model, which are the declared names without the private
  and the reserved ones, each supplied value is preserved, and an omitted optional field
  holds \<open>None\<close>.
\<close>

theorem extract_structured_data_roundtrip:
  assumes "get_dynamic_model self model_fields = Inr Entity"
    and "json_loads self raw = Some (JObject members)"
    and "map_of members ''Entities'' = Some (JArray elems)"
    and "list_all (well_formed_element Entity) elems"
  shows "\<exists>records.
           extract_structured_data self raw model_fields ctx w =
             (Inr (map (\<lambda>r. \<lparr>input = ctx, response = r\<rparr>) records), w) \<and>
           list_all2 (preserves Entity) elems records \<and>
           map fst Entity =
             filter (\<lambda>n. \<not> private_name n \<and> \<not> reserved_name self n)
               (rev (remdups (rev (map name model_fields))))"
proof -
  from assms(4) have "\<exists>rs. first_error (map (validate_entity (lax self) Entity) elems) = Inr rs \<and>
      list_all2 (preserves Entity) elems rs"
    by (rule validate_entities_well_formed)
  then obtain rs where
    rs: "first_error (map (validate_entity (lax self) Entity) elems) = Inr rs"
      "list_all2 (preserves Entity) elems rs"
    by (elim exE conjE)
  from assms(1,2,3) rs(1) have
    "extract_structured_data self raw model_fields ctx w =
       (Inr (map (\<lambda>r. \<lparr>input = ctx, response = r\<rparr>) rs), w)"
    by (simp add: extract_structured_data_def model_validate_json_def)
  with rs(2) keys_created_model [OF assms(1)] show ?thesis
    by (intro exI conjI)
qed

theorem extract_structured_data_roundtrip_witness:
  \<open>get_dynamic_model example_extractor title_schema = Inr [(''title'', Prim PStr, Ellipsis)] \<and>
   json_text ''{"Entities":[{"title":"A"},{"title":"B"}]}'' \<and>
   json_loads example_extractor ''{"Entities":[{"title":"A"},{"title":"B"}]}'' =
     Some (JObject [(''Entities'',
       JArray [JObject [(''title'', JString ''A'')], JObject [(''title'', JString ''B'')]])]) \<and>
   list_all (well_formed_element [(''title'', Prim PStr, Ellipsis)])
     [JObject [(''title'', JString ''A'')], JObject [(''title'', JString ''B'')]] \<and>
   (\<exists>records.
      extract_structured_data example_extractor ''{"Entities":[{"title":"A"},{"title":"B"}]}''
          title_schema ''some text'' example_world =
        (Inr (map (\<lambda>r. \<lparr>input = ''some text'', response = r\<rparr>) records), example_world) \<and>
      list_all2 (preserves [(''title'', Prim PStr, Ellipsis)])
        [JObject [(''title'', JString ''A'')], JObject [(''title'', JString ''B'')]] records \<and>
      map fst [(''title'', Prim PStr, Ellipsis)] =
        filter (\<lambda>n. \<not> private_name n \<and> \<not> reserved_name example_extractor n)
          (rev (remdups (rev (map name title_schema))))) \<and>
   extract_structured_data example_extractor ''{"Entities":[{"title":"A"},{"title":"B"}]}''
       title_schema ''some text'' example_world =
     (Inr [\<lparr>input = ''some text'', response = [(''title'', VStr ''A'')]\<rparr>,
           \<lparr>input = ''some text'', response = [(''title'', VStr ''B'')]\<rparr>], example_world)\<close>
proof -
  note h0 = example_models(2)
  note t = example_texts(1)
  have h1: \<open>json_loads example_extractor ''{"Entities":[{"title":"A"},{"title":"B"}]}'' =
     Some (JObject [(''Entities'',
       JArray [JObject [(''title'', JString ''A'')], JObject [(''title'', JString ''B'')]])])\<close>
    by (simp add: example_reader example_documents)
  have h2: "map_of [(''Entities'',
       JArray [JObject [(''title'', JString ''A'')], JObject [(''title'', JString ''B'')]])]
       ''Entities'' =
     Some (JArray [JObject [(''title'', JString ''A'')], JObject [(''title'', JString ''B'')]])"
    by simp
  have h3: "list_all (well_formed_element [(''title'', Prim PStr, Ellipsis)])
     [JObject [(''title'', JString ''A'')], JObject [(''title'', JString ''B'')]]"
    by simp
  note e = example_extractions(1) [of "''some text''"]
  from h0 t h1 h3
    extract_structured_data_roundtrip [OF h0 h1 h2 h3, of "''some text''" example_world] e
  show ?thesis by (intro conjI)
qed

text \<open>
  C2. The claim: an array element that lacks a required field makes the call yield a
  schema mismatch and no record. A required field \<open>_x\<close> is no field of the model: the element
  \<open>{"y":1}\<close> lacks it, and the call returns a record for the element.
\<close>

theorem missing_private_field_counterexample:
  \<open>json_text ''{"Entities":[{"y":1}]}'' \<and>
   lacks_required (model_fields_dict private_schema) (JObject [(''y'', JInt 1)]) \<and>
   extract_structured_data example_extractor ''{"Entities":[{"y":1}]}''
       private_schema ''some text'' example_world =
     (Inr [\<lparr>input = ''some text'', response = [(''y'', VInt 1)]\<rparr>], example_world)\<close>
  by (simp add: example_texts example_dicts example_extractions)

text \<open>
  C2, as the code has it. When the model for the declared fields can be built, the response
  is read as an object whose \<open>Entities\<close> array has an element that lacks a required field
  of the model (a required declared field whose name is neither private nor reserved),
  then validation against the model fails (the schema mismatch) and the call returns no
  record, whatever the other elements are: it prints the validation error and returns the
  empty list, or raises what the console raises for that line.
\<close>

theorem missing_required_field_rejects_all:
  assumes "get_dynamic_model self model_fields = Inr Entity"
    and "json_loads self raw = Some (JObject members)"
    and "map_of members ''Entities'' = Some (JArray elems)"
    and "el \<in> set elems"
    and "lacks_required Entity el"
  shows "\<exists>e. validate_entities_list (lax self) Entity (JObject members) = Inl e \<and>
             (print_error self (''[bold red]Validation Error:[/] '' @ py_repr e) = None \<longrightarrow>
                extract_structured_data self raw model_fields ctx w =
                  (Inr [], w\<lparr>console := console w @
                     [''[bold red]Validation Error:[/] '' @ py_repr e]\<rparr>)) \<and>
             (\<forall>x. print_error self (''[bold red]Validation Error:[/] '' @ py_repr e) = Some x \<longrightarrow>
                extract_structured_data self raw model_fields ctx w = (Inl x, w))"
proof -
  from assms(5) have "\<exists>e. validate_entity (lax self) Entity el = Inl e"
    by (rule validate_entity_lacks)
  then obtain e0 where e0: "validate_entity (lax self) Entity el = Inl e0" ..
  from assms(4) e0 have "\<exists>e. first_error (map (validate_entity (lax self) Entity) elems) = Inl e"
    by (rule first_error_map_Inl)
  then obtain e where e: "first_error (map (validate_entity (lax self) Entity) elems) = Inl e" ..
  from assms(3) e have v: "validate_entities_list (lax self) Entity (JObject members) = Inl e"
    by simp
  from assms(1,2) v have x:
    "extract_structured_data self raw model_fields ctx w =
       print_return self w (''[bold red]Validation Error:[/] '' @ py_repr e) []"
    by (simp add: extract_structured_data_def model_validate_json_def)
  have "print_error self (''[bold red]Validation Error:[/] '' @ py_repr e) = None \<longrightarrow>
      extract_structured_data self raw model_fields ctx w =
        (Inr [], w\<lparr>console := console w @ [''[bold red]Validation Error:[/] '' @ py_repr e]\<rparr>)"
    by (simp add: x print_return_def console_print_def)
  moreover have "\<forall>x. print_error self (''[bold red]Validation Error:[/] '' @ py_repr e) = Some x \<longrightarrow>
      extract_structured_data self raw model_fields ctx w = (Inl x, w)"
    by (simp add: x print_return_def console_print_def)
  ultimately show ?thesis using v by (intro exI conjI)
qed

theorem missing_required_field_rejects_all_witness:
  \<open>get_dynamic_model example_extractor title_schema = Inr [(''title'', Prim PStr, Ellipsis)] \<and>
   json_loads example_extractor ''{"Entities":[{"note":"x"}]}'' =
     Some (JObject [(''Entities'', JArray [JObject [(''note'', JString ''x'')]])]) \<and>
   lacks_required [(''title'', Prim PStr, Ellipsis)] (JObject [(''note'', JString ''x'')]) \<and>
   (\<exists>e. validate_entities_list (lax example_extractor) [(''title'', Prim PStr, Ellipsis)]
          (JObject [(''Entities'', JArray [JObject [(''note'', JString ''x'')]])]) = Inl e) \<and>
   extract_structured_data example_extractor ''{"Entities":[{"note":"x"}]}''
       title_schema ''some text'' example_world =
     (Inr [], example_world
        \<lparr>console := [''[bold red]Validation Error:[/] '' @ py_repr ''missing'']\<rparr>)\<close>
proof -
  note h0 = example_models(2)
  have h1: \<open>json_loads example_extractor ''{"Entities":[{"note":"x"}]}'' =
     Some (JObject [(''Entities'', JArray [JObject [(''note'', JString ''x'')]])])\<close>
    by (simp add: example_reader example_documents)
  have h2: "map_of [(''Entities'', JArray [JObject [(''note'', JString ''x'')]])] ''Entities'' =
     Some (JArray [JObject [(''note'', JString ''x'')]])"
    by simp
  have h3: "JObject [(''note'', JString ''x'')] \<in> set [JObject [(''note'', JString ''x'')]]"
    by simp
  have h4: "lacks_required [(''title'', Prim PStr, Ellipsis)] (JObject [(''note'', JString ''x'')])"
    by simp
  from missing_required_field_rejects_all [OF h0 h1 h2 h3 h4, of "''some text''" example_world]
  have v: "\<exists>e. validate_entities_list (lax example_extractor) [(''title'', Prim PStr, Ellipsis)]
          (JObject [(''Entities'', JArray [JObject [(''note'', JString ''x'')]])]) = Inl e"
    by (elim exE conjE) (rule exI)
  note e = example_extractions(2) [of "''some text''"]
  from h0 h1 h4 v e show ?thesis by (intro conjI)
qed

text \<open>
  C3. The claim: a response that is not syntactically valid JSON yields the malformed-JSON
  failure and no record. The reader of the validation library accepts more than JSON: the
  text \<open>{"Entities":[{"score":NaN}]}\<close> is not JSON, and the call returns a record for it.
\<close>

theorem not_a_number_counterexample:
  \<open>\<not> json_text ''{"Entities":[{"score":NaN}]}'' \<and>
   extract_structured_data example_extractor ''{"Entities":[{"score":NaN}]}''
       score_schema ''some text'' example_world =
     (Inr [\<lparr>input = ''some text'', response = [(''score'', VFloat NaN)]\<rparr>], example_world)\<close>
  by (simp add: example_texts example_extractions)

text \<open>
  C3, as the code has it. Let the reader of the library accept no text outside JSON extended
  by the numbers \<open>NaN\<close>, \<open>Infinity\<close> and \<open>-Infinity\<close>, and let the model for the declared
  fields be built. Then for a response that is not a text of this extended grammar the call
  returns no record: it prints a validation error of type \<open>json_invalid\<close> (the library's
  name for malformed JSON) and returns the empty list, or raises what the console raises
  for that line. The failure arrives as a \<open>ValidationError\<close>; the handler for
  \<open>json.JSONDecodeError\<close> is never entered.
\<close>

theorem malformed_json_rejected:
  assumes "\<And>s. json_loads self s \<noteq> None \<Longrightarrow> json_text_ext s"
    and "\<not> json_text_ext raw"
    and "get_dynamic_model self model_fields = Inr Entity"
  shows "(print_error self (''[bold red]Validation Error:[/] '' @ py_repr ''json_invalid'') = None \<longrightarrow>
            extract_structured_data self raw model_fields ctx w =
              (Inr [], w\<lparr>console := console w @
                 [''[bold red]Validation Error:[/] '' @ py_repr ''json_invalid'']\<rparr>)) \<and>
         (\<forall>x. print_error self (''[bold red]Validation Error:[/] '' @ py_repr ''json_invalid'') =
                 Some x \<longrightarrow>
            extract_structured_data self raw model_fields ctx w = (Inl x, w))"
proof -
  from assms(1) [of raw] assms(2) have n: "json_loads self raw = None"
    by blast
  with assms(3) have x:
    "extract_structured_data self raw model_fields ctx w =
       print_return self w (''[bold red]Validation Error:[/] '' @ py_repr ''json_invalid'') []"
    by (simp add: extract_structured_data_def model_validate_json_def)
  show ?thesis
    by (simp add: x print_return_def console_print_def)
qed

theorem malformed_json_rejected_witness:
  \<open>\<not> json_text_ext ''{"Entities":[{"title":'' \<and>
   get_dynamic_model example_extractor title_schema = Inr [(''title'', Prim PStr, Ellipsis)] \<and>
   print_error example_extractor
     (''[bold red]Validation Error:[/] '' @ py_repr ''json_invalid'') = None \<and>
   extract_structured_data example_extractor ''{"Entities":[{"title":'' title_schema
       ''some text'' example_world =
     (Inr [], example_world\<lparr>console := console example_world @
        [''[bold red]Validation Error:[/] '' @ py_repr ''json_invalid'']\<rparr>)\<close>
proof -
  have r: "json_text_ext s" if "json_loads example_extractor s \<noteq> None" for s
    using that by (simp add: example_reader example_loads_within_grammar)
  note t = example_texts(12)
  note h0 = example_models(2)
  have p: "print_error example_extractor
     (''[bold red]Validation Error:[/] '' @ py_repr ''json_invalid'') = None"
    by (simp add: example_console py_repr_def no_such_file_text_def)
  have \<open>(print_error example_extractor
       (''[bold red]Validation Error:[/] '' @ py_repr ''json_invalid'') = None \<longrightarrow>
     extract_structured_data example_extractor ''{"Entities":[{"title":'' title_schema
         ''some text'' example_world =
       (Inr [], example_world\<lparr>console := console example_world @
          [''[bold red]Validation Error:[/] '' @ py_repr ''json_invalid'']\<rparr>)) \<and>
    (\<forall>x. print_error example_extractor
       (''[bold red]Validation Error:[/] '' @ py_repr ''json_invalid'') = Some x \<longrightarrow>
     extract_structured_data example_extractor ''{"Entities":[{"title":'' title_schema
         ''some text'' example_world = (Inl x, example_world))\<close>
    by (rule malformed_json_rejected [OF _ t h0]) (rule r)
  then have \<open>print_error example_extractor
       (''[bold red]Validation Error:[/] '' @ py_repr ''json_invalid'') = None \<longrightarrow>
     extract_structured_data example_extractor ''{"Entities":[{"title":'' title_schema
         ''some text'' example_world =
       (Inr [], example_world\<lparr>console := console example_world @
          [''[bold red]Validation Error:[/] '' @ py_repr ''json_invalid'']\<rparr>)\<close>
    by (rule conjunct1)
  from this p have e: \<open>extract_structured_data example_extractor ''{"Entities":[{"title":'' title_schema
       ''some text'' example_world =
     (Inr [], example_world\<lparr>console := console example_world @
        [''[bold red]Validation Error:[/] '' @ py_repr ''json_invalid'']\<rparr>)\<close>
    by (rule mp)
  from t h0 p e show ?thesis by (intro conjI)
qed

text \<open>
  C10. The claim: every record has an entry for every field name of the schema, an omitted
  optional field holding \<open>None\<close>. An optional field \<open>_x\<close> is no field of the model: for the
  element \<open>{"y":1}\<close> the record has the entry \<open>y\<close> only.
\<close>

theorem private_field_absent_counterexample:
  \<open>map name private_optional_schema = [''_x'', ''y''] \<and>
   map optional private_optional_schema = [True, False] \<and>
   extract_structured_data example_extractor ''{"Entities":[{"y":1}]}''
       private_optional_schema ''some text'' example_world =
     (Inr [\<lparr>input = ''some text'', response = [(''y'', VInt 1)]\<rparr>], example_world)\<close>
proof -
  have "map name private_optional_schema = [''_x'', ''y'']"
    and "map optional private_optional_schema = [True, False]"
    by (simp_all add: private_optional_schema_def)
  with example_extractions(9) [of "''some text''"] show ?thesis
    by (intro conjI)
qed

text \<open>
  C10, as the code has it. When the model for the declared fields is built and validation
  succeeds, the call returns one result per validated entity; every record has exactly the
  fields of the model, in the model's order, which are the declared names without the
  private ones (those with a leading underscore) and the reserved ones; and a field of the
  model for which the array element has no key (it can only be an optional one) is in the
  record with the value \<open>None\<close>.
\<close>

theorem records_have_every_field:
  assumes "get_dynamic_model self model_fields = Inr Entity"
    and "model_validate_json (json_loads self) (lax self) Entity raw = Inr entities"
  shows "extract_structured_data self raw model_fields ctx w =
           (Inr (map (\<lambda>r. \<lparr>input = ctx, response = r\<rparr>) entities), w) \<and>
         (\<forall>r \<in> set entities.
            map fst r =
              filter (\<lambda>n. \<not> private_name n \<and> \<not> reserved_name self n)
                (rev (remdups (rev (map name model_fields))))) \<and>
         (\<exists>members elems.
            json_loads self raw = Some (JObject members) \<and>
            map_of members ''Entities'' = Some (JArray elems) \<and>
            list_all2 (has_every_field Entity) elems entities)"
proof -
  from assms(2) obtain doc where doc: "json_loads self raw = Some doc"
    and v: "validate_entities_list (lax self) Entity doc = Inr entities"
    by (auto simp: model_validate_json_def split: option.splits sum.splits)
  from v obtain members where members: "doc = JObject members"
    by (cases doc) auto
  with v obtain elems where elems: "map_of members ''Entities'' = Some (JArray elems)"
    and fe: "first_error (map (validate_entity (lax self) Entity) elems) = Inr entities"
    by (auto split: option.splits json.splits)
  from fe have all: "list_all2 (has_every_field Entity) elems entities"
    by (rule validate_entities_complete)
  have keys: "map fst r =
      filter (\<lambda>n. \<not> private_name n \<and> \<not> reserved_name self n)
        (rev (remdups (rev (map name model_fields))))" if "r \<in> set entities" for r
  proof -
    from that all obtain el where "has_every_field Entity el r"
      by (auto simp: list_all2_conv_all_nth in_set_conv_nth)
    then have "map fst r = map fst Entity"
      by (cases el) auto
    with keys_created_model [OF assms(1)] show ?thesis
      by (simp only:)
  qed
  from assms have x: "extract_structured_data self raw model_fields ctx w =
      (Inr (map (\<lambda>r. \<lparr>input = ctx, response = r\<rparr>) entities), w)"
    by (simp add: extract_structured_data_def)
  from doc members elems all have
    "\<exists>members elems.
       json_loads self raw = Some (JObject members) \<and>
       map_of members ''Entities'' = Some (JArray elems) \<and>
       list_all2 (has_every_field Entity) elems entities"
    by (intro exI conjI) simp_all
  with x keys show ?thesis by (intro conjI ballI)
qed

theorem records_have_every_field_witness:
  \<open>get_dynamic_model example_extractor title_year_schema =
     Inr [(''title'', Prim PStr, Ellipsis), (''year'', Prim PInt, DefaultNone)] \<and>
   model_validate_json (json_loads example_extractor) (lax example_extractor)
     [(''title'', Prim PStr, Ellipsis), (''year'', Prim PInt, DefaultNone)]
     ''{"Entities":[{"title":"A"}]}'' =
     Inr [[(''title'', VStr ''A''), (''year'', VNone)]] \<and>
   extract_structured_data example_extractor ''{"Entities":[{"title":"A"}]}''
       title_year_schema ''some text'' example_world =
     (Inr [\<lparr>input = ''some text'', response = [(''title'', VStr ''A''), (''year'', VNone)]\<rparr>],
      example_world) \<and>
   map fst [(''title'', VStr ''A''), (''year'', VNone)] = map name title_year_schema\<close>
proof -
  note h0 = example_models(3)
  have h: \<open>model_validate_json (json_loads example_extractor) (lax example_extractor)
     [(''title'', Prim PStr, Ellipsis), (''year'', Prim PInt, DefaultNone)]
     ''{"Entities":[{"title":"A"}]}'' =
     Inr [[(''title'', VStr ''A''), (''year'', VNone)]]\<close>
    by (simp add: example_reader example_documents model_validate_json_def)
  have n: "map fst [(''title'', VStr ''A''), (''year'', VNone)] = map name title_year_schema"
    by (simp add: title_year_schema_def)
  from records_have_every_field [OF h0 h, of "''some text''" example_world]
  have e: \<open>extract_structured_data example_extractor ''{"Entities":[{"title":"A"}]}''
       title_year_schema ''some text'' example_world =
     (Inr [\<lparr>input = ''some text'', response = [(''title'', VStr ''A''), (''year'', VNone)]\<rparr>],
      example_world)\<close>
    by simp
  from h0 h e n show ?thesis by (intro conjI)
qed

section \<open>Claims about the operations\<close>

text \<open>
  C6. The claim: on a \<open>.txt\<close> file \<open>process_bulk_text\<close> cuts the contents at \<open>,,\<close>, skips
  the blank units, sends each other unit through \<open>process_text\<close> and concatenates the
  results; \<open>foo,,bar,,\<close> gives the two processed units \<open>foo\<close> and \<open>bar\<close>. The code stops at
  the first unit for which \<open>process_text\<close> raises, which it does for a schema whose model
  cannot be built: for \<open>units.txt\<close>, which holds \<open>foo,,bar,,\<close>, and a required field
  \<open>model_config\<close>, the call for \<open>foo\<close> raises, \<open>bar\<close> is never sent (the model server
  has counted no request), and the result is the empty list with the exception printed.
\<close>

theorem process_bulk_text_stops_counterexample:
  "str_lower (snd (splitext ''units.txt'')) = ''.txt'' \<and>
   read_text example_extractor ''units.txt'' = Inr ''foo,,bar,,'' \<and>
   process_text example_extractor ''foo'' refused_schema example_world =
     (Inl (TypeError ellipsis_text), example_world) \<and>
   endpoint example_world = 0 \<and>
   process_bulk_text example_extractor ''units.txt'' refused_schema example_world =
     (Inr [], example_world
        \<lparr>console := [''[bold red]Error processing bulk text:[/] '' @ ellipsis_text]\<rparr>)"
  by (simp add: example_paths example_files example_units example_process_text
      process_bulk_text_def process_bulk_text_try_def process_units_in_order print_return_def console_print_def
      example_console example_world_def isspace_def ellipsis_text_def py_repr_def no_such_file_text_def)

text \<open>
  C6, as the code has it. For a path whose extension is \<open>.txt\<close> (in any case of the
  letters) and a file that can be read, \<open>process_bulk_text\<close> cuts the contents at every
  \<open>,,\<close> from the left, leaves out the units that consist of white space only (the empty
  unit among them) and sends the others through \<open>process_text\<close> one after the other, each in
  the world the one before left. When every call returns, the result is the concatenation
  of their results in the order of the units. When a call raises, the units after it are
  not processed, the results so far are dropped, the exception is printed after
  \<open>Error processing bulk text:\<close> and the empty list is returned. Cutting: a text without
  \<open>,,\<close> is one unit; otherwise the first unit ends where the first \<open>,,\<close> begins and the rest
  is cut in the same way. \<open>foo,,bar,,\<close> is cut into \<open>foo\<close>, \<open>bar\<close> and the empty unit, of
  which \<open>foo\<close> and \<open>bar\<close> are processed. (The comment of line 190 speaks of a double
  newline; the code cuts at two commas.)
\<close>

theorem process_bulk_text_txt_in_order:
  assumes "str_lower (snd (splitext file_path)) = ''.txt''"
    and "read_text self file_path = Inr contents"
  shows "(process_in_order self model_fields
            (filter (\<lambda>u. \<not> list_all isspace u) (str_split contents '',,'')) w = (Inr rs, w') \<longrightarrow>
          process_bulk_text self file_path model_fields w = (Inr rs, w')) \<and>
         (process_in_order self model_fields
            (filter (\<lambda>u. \<not> list_all isspace u) (str_split contents '',,'')) w = (Inl e, w') \<and>
          print_error self (''[bold red]Error processing bulk text:[/] '' @ exn_str e) = None \<longrightarrow>
          process_bulk_text self file_path model_fields w =
            (Inr [], w'\<lparr>console := console w' @
               [''[bold red]Error processing bulk text:[/] '' @ exn_str e]\<rparr>)) \<and>
         (\<not> py_in '',,'' s \<longrightarrow> str_split s '',,'' = [s]) \<and>
         (\<not> py_in '',,'' (head @ '','') \<longrightarrow>
          str_split (head @ '',,'' @ rest) '',,'' = head # str_split rest '',,'') \<and>
         str_split ''foo,,bar,,'' '',,'' = [''foo'', ''bar'', ''''] \<and>
         filter (\<lambda>u. \<not> list_all isspace u) [''foo'', ''bar'', ''''] = [''foo'', ''bar'']"
proof -
  let ?units = "filter (\<lambda>u. \<not> list_all isspace u) (str_split contents '',,'')"
  from assms have body:
    "process_bulk_text_try self file_path model_fields w =
       (case process_in_order self model_fields ?units w of
          (Inl e, w') \<Rightarrow> (Inl e, w')
        | (Inr rs, w') \<Rightarrow> (Inr rs, w'))"
    by (simp add: process_bulk_text_try_def process_units_in_order split: prod.splits sum.splits)
  have a: "process_in_order self model_fields ?units w = (Inr rs, w') \<longrightarrow>
      process_bulk_text self file_path model_fields w = (Inr rs, w')"
    by (simp add: process_bulk_text_def body)
  have b: "process_in_order self model_fields ?units w = (Inl e, w') \<and>
      print_error self (''[bold red]Error processing bulk text:[/] '' @ exn_str e) = None \<longrightarrow>
      process_bulk_text self file_path model_fields w =
        (Inr [], w'\<lparr>console := console w' @
           [''[bold red]Error processing bulk text:[/] '' @ exn_str e]\<rparr>)"
    by (simp add: process_bulk_text_def body print_return_def console_print_def)
  have c: "\<not> py_in '',,'' s \<longrightarrow> str_split s '',,'' = [s]"
    by (rule impI) (rule str_split_no_sep)
  have d: "\<not> py_in '',,'' (head @ '','') \<longrightarrow>
      str_split (head @ '',,'' @ rest) '',,'' = head # str_split rest '',,''"
    using str_split_first_sep [where sep = "'',,''" and u = head and rest = rest] by simp
  from a b c d example_units(1) example_units(3) show ?thesis by (intro conjI)
qed

theorem process_bulk_text_txt_in_order_witness:
  "str_lower (snd (splitext ''units.txt'')) = ''.txt'' \<and>
   read_text example_extractor ''units.txt'' = Inr ''foo,,bar,,'' \<and>
   filter (\<lambda>u. \<not> list_all isspace u) (str_split ''foo,,bar,,'' '',,'') = [''foo'', ''bar''] \<and>
   process_in_order example_extractor title_schema [''foo'', ''bar''] example_world =
     (Inr [\<lparr>input = ''foo'', response = [(''title'', VStr ''A'')]\<rparr>,
           \<lparr>input = ''bar'', response = [(''title'', VStr ''A'')]\<rparr>],
      example_world\<lparr>endpoint := 2\<rparr>) \<and>
   process_bulk_text example_extractor ''units.txt'' title_schema example_world =
     (Inr [\<lparr>input = ''foo'', response = [(''title'', VStr ''A'')]\<rparr>,
           \<lparr>input = ''bar'', response = [(''title'', VStr ''A'')]\<rparr>],
      example_world\<lparr>endpoint := 2\<rparr>) \<and>
   process_in_order example_extractor refused_schema [''foo'', ''bar''] example_world =
     (Inl (TypeError ellipsis_text), example_world) \<and>
   print_error example_extractor
     (''[bold red]Error processing bulk text:[/] '' @ exn_str (TypeError ellipsis_text)) = None \<and>
   process_bulk_text example_extractor ''units.txt'' refused_schema example_world =
     (Inr [], example_world\<lparr>console := console example_world @
        [''[bold red]Error processing bulk text:[/] '' @ exn_str (TypeError ellipsis_text)]\<rparr>) \<and>
   \<not> py_in '',,'' ''foo, bar'' \<and>
   str_split ''foo, bar'' '',,'' = [''foo, bar''] \<and>
   \<not> py_in '',,'' (''foo, '' @ '','') \<and>
   str_split (''foo, '' @ '',,'' @ '' ,,bar'') '',,'' = ''foo, '' # str_split '' ,,bar'' '',,''"
proof -
  have h1: "str_lower (snd (splitext ''units.txt'')) = ''.txt''"
    by (rule example_paths)
  have h2: "read_text example_extractor ''units.txt'' = Inr ''foo,,bar,,''"
    by (rule example_files)
  have u: "filter (\<lambda>u. \<not> list_all isspace u) (str_split ''foo,,bar,,'' '',,'') =
      [''foo'', ''bar'']"
    by (simp only: example_units)
  have p1: "process_in_order example_extractor title_schema [''foo'', ''bar''] example_world =
     (Inr [\<lparr>input = ''foo'', response = [(''title'', VStr ''A'')]\<rparr>,
           \<lparr>input = ''bar'', response = [(''title'', VStr ''A'')]\<rparr>],
      example_world\<lparr>endpoint := 2\<rparr>)"
    by (simp add: example_process_text example_world_def)
  have p2: "process_in_order example_extractor refused_schema [''foo'', ''bar''] example_world =
     (Inl (TypeError ellipsis_text), example_world)"
    by (simp add: example_process_text)
  have p3: "print_error example_extractor
     (''[bold red]Error processing bulk text:[/] '' @ exn_str (TypeError ellipsis_text)) = None"
    by (simp add: example_console no_such_file_text_def)
  have s1: "\<not> py_in '',,'' ''foo, bar''"
    by simp
  have s2: "\<not> py_in '',,'' (''foo, '' @ '','')"
    by simp
  note t1 = process_bulk_text_txt_in_order [OF h1 h2,
      where model_fields = title_schema and w = example_world
        and s = "''foo, bar''" and head = "''foo, ''" and rest = "'' ,,bar''"]
  note t2 = process_bulk_text_txt_in_order [OF h1 h2,
      where model_fields = refused_schema and w = example_world
        and e = "TypeError ellipsis_text"]
  from p1 have q1: "process_in_order example_extractor title_schema
      (filter (\<lambda>u. \<not> list_all isspace u) (str_split ''foo,,bar,,'' '',,'')) example_world =
     (Inr [\<lparr>input = ''foo'', response = [(''title'', VStr ''A'')]\<rparr>,
           \<lparr>input = ''bar'', response = [(''title'', VStr ''A'')]\<rparr>],
      example_world\<lparr>endpoint := 2\<rparr>)"
    by (simp only: u)
  from p2 have q2: "process_in_order example_extractor refused_schema
      (filter (\<lambda>u. \<not> list_all isspace u) (str_split ''foo,,bar,,'' '',,'')) example_world =
     (Inl (TypeError ellipsis_text), example_world)"
    by (simp only: u)
  have r1: "process_bulk_text example_extractor ''units.txt'' title_schema example_world =
     (Inr [\<lparr>input = ''foo'', response = [(''title'', VStr ''A'')]\<rparr>,
           \<lparr>input = ''bar'', response = [(''title'', VStr ''A'')]\<rparr>],
      example_world\<lparr>endpoint := 2\<rparr>)"
    by (rule t1 [THEN conjunct1, THEN mp]) (rule q1)
  have r2: "process_bulk_text example_extractor ''units.txt'' refused_schema example_world =
     (Inr [], example_world\<lparr>console := console example_world @
        [''[bold red]Error processing bulk text:[/] '' @ exn_str (TypeError ellipsis_text)]\<rparr>)"
    by (rule t2 [THEN conjunct2, THEN conjunct1, THEN mp]) (intro conjI q2 p3)
  have r3: "str_split ''foo, bar'' '',,'' = [''foo, bar'']"
    by (rule t1 [THEN conjunct2, THEN conjunct2, THEN conjunct1, THEN mp]) (rule s1)
  have r4: "str_split (''foo, '' @ '',,'' @ '' ,,bar'') '',,'' =
      ''foo, '' # str_split '' ,,bar'' '',,''"
    by (rule t1 [THEN conjunct2, THEN conjunct2, THEN conjunct2, THEN conjunct1, THEN mp])
      (rule s2)
  from h1 h2 u p1 r1 p2 p3 r2 s1 r3 s2 r4 show ?thesis by (intro conjI)
qed

text \<open>
  C7. The claim: \<open>process_image\<close> fails with IOError when the image file cannot be opened,
  and never raises: on any failure it returns the empty list and reports the failure. The
  code does not fail for a file that cannot be opened: for \<open>cat.gif\<close>, which does not
  exist, it returns the empty list and prints the error. And it does raise: the model is
  built before the \<open>try\<close>, so for a required field \<open>model_config\<close> the TypeError of the
  validation library leaves the function; and the console reads the printed line as markup,
  so for the missing file \<open>pics/[/]cat.png\<close> the handler's \<open>print\<close> raises MarkupError,
  which leaves the function too, nothing being printed.
\<close>

theorem process_image_raises_counterexample:
  "read_bytes example_extractor ''cat.gif'' = Inl (OSError (no_such_file_text ''cat.gif'')) \<and>
   process_image example_extractor ''cat.gif'' title_schema example_world =
     (Inr [], example_world
        \<lparr>console := [''[bold red]Error processing image:[/] '' @
                       no_such_file_text ''cat.gif'']\<rparr>) \<and>
   process_image example_extractor ''cat.gif'' refused_schema example_world =
     (Inl (TypeError ellipsis_text), example_world) \<and>
   process_image example_extractor ''pics/[/]cat.png'' title_schema example_world =
     (Inl (MarkupError (closes_nothing_text ''80'')), example_world)"
  by (simp add: process_image_def process_image_try_def example_models example_files
      print_return_def console_print_def example_console example_world_def
      no_such_file_text_def py_repr_def)

text \<open>
  C7, as the code has it. When the model of the schema can be built, \<open>process_image\<close>
  raises nothing but what the console raises for a line it is to print. When the image file
  cannot be opened or read, and when the chat call raises, it prints the text of the
  exception after \<open>Error processing image:\<close> and returns the empty list (no IOError reaches
  the caller); when the answer fails validation, it prints the type of the validation error
  after \<open>Validation Error:\<close> and returns the empty list; in each case provided the console
  accepts the line, which then is the last line of the console. When the answer passes
  validation, the records are returned with the base name of the path as their input and
  nothing is printed.
\<close>

theorem process_image_contains_failures:
  assumes "get_dynamic_model self model_fields = Inr Entity"
  shows "(process_image self image_path model_fields w = (Inl x, w') \<longrightarrow>
            (\<exists>line. print_error self line = Some x)) \<and>
         (read_bytes self image_path = Inl e \<and>
          print_error self (''[bold red]Error processing image:[/] '' @ exn_str e) = None \<longrightarrow>
            process_image self image_path model_fields w =
              (Inr [], w\<lparr>console := console w @
                 [''[bold red]Error processing image:[/] '' @ exn_str e]\<rparr>)) \<and>
         (read_bytes self image_path = Inr img \<and>
          chat self (image_request self Entity model_fields img) (endpoint w) = (Inl e, s) \<and>
          print_error self (''[bold red]Error processing image:[/] '' @ exn_str e) = None \<longrightarrow>
            process_image self image_path model_fields w =
              (Inr [], w\<lparr>endpoint := s, console := console w @
                 [''[bold red]Error processing image:[/] '' @ exn_str e]\<rparr>)) \<and>
         (read_bytes self image_path = Inr img \<and>
          chat self (image_request self Entity model_fields img) (endpoint w) =
            (Inr content, s) \<and>
          model_validate_json (json_loads self) (lax self) Entity content =
            Inl (ValidationError t) \<and>
          print_error self (''[bold red]Validation Error:[/] '' @ py_repr t) = None \<longrightarrow>
            process_image self image_path model_fields w =
              (Inr [], w\<lparr>endpoint := s, console := console w @
                 [''[bold red]Validation Error:[/] '' @ py_repr t]\<rparr>)) \<and>
         (read_bytes self image_path = Inr img \<and>
          chat self (image_request self Entity model_fields img) (endpoint w) =
            (Inr content, s) \<and>
          model_validate_json (json_loads self) (lax self) Entity content = Inr entities \<longrightarrow>
            process_image self image_path model_fields w =
              (Inr (map (\<lambda>item. \<lparr>input = basename image_path, response = item\<rparr>) entities),
               w\<lparr>endpoint := s\<rparr>))"
proof (intro conjI impI)
  assume "process_image self image_path model_fields w = (Inl x, w')"
  with assms show "\<exists>line. print_error self line = Some x"
    by (auto simp: process_image_def process_image_try_def extract_structured_data_def
        print_return_def console_print_def
        split: prod.splits sum.splits option.splits validation_exn.splits)
next
  assume "read_bytes self image_path = Inl e \<and>
    print_error self (''[bold red]Error processing image:[/] '' @ exn_str e) = None"
  with assms show "process_image self image_path model_fields w =
      (Inr [], w\<lparr>console := console w @
         [''[bold red]Error processing image:[/] '' @ exn_str e]\<rparr>)"
    by (simp add: process_image_def process_image_try_def print_return_def console_print_def)
next
  assume "read_bytes self image_path = Inr img \<and>
    chat self (image_request self Entity model_fields img) (endpoint w) = (Inl e, s) \<and>
    print_error self (''[bold red]Error processing image:[/] '' @ exn_str e) = None"
  with assms show "process_image self image_path model_fields w =
      (Inr [], w\<lparr>endpoint := s, console := console w @
         [''[bold red]Error processing image:[/] '' @ exn_str e]\<rparr>)"
    by (simp add: process_image_def process_image_try_def print_return_def console_print_def)
next
  assume "read_bytes self image_path = Inr img \<and>
    chat self (image_request self Entity model_fields img) (endpoint w) = (Inr content, s) \<and>
    model_validate_json (json_loads self) (lax self) Entity content = Inl (ValidationError t) \<and>
    print_error self (''[bold red]Validation Error:[/] '' @ py_repr t) = None"
  with assms show "process_image self image_path model_fields w =
      (Inr [], w\<lparr>endpoint := s, console := console w @
         [''[bold red]Validation Error:[/] '' @ py_repr t]\<rparr>)"
    by (simp add: process_image_def process_image_try_def extract_structured_data_def
        print_return_def console_print_def)
next
  assume "read_bytes self image_path = Inr img \<and>
    chat self (image_request self Entity model_fields img) (endpoint w) = (Inr content, s) \<and>
    model_validate_json (json_loads self) (lax self) Entity content = Inr entities"
  with assms show "process_image self image_path model_fields w =
      (Inr (map (\<lambda>item. \<lparr>input = basename image_path, response = item\<rparr>) entities),
       w\<lparr>endpoint := s\<rparr>)"
    by (simp add: process_image_def process_image_try_def extract_structured_data_def)
qed

theorem process_image_contains_failures_witness:
  \<open>get_dynamic_model example_extractor title_schema = Inr [(''title'', Prim PStr, Ellipsis)] \<and>
   process_image example_extractor ''pics/[/]cat.png'' title_schema example_world =
     (Inl (MarkupError (closes_nothing_text ''80'')), example_world) \<and>
   (\<exists>line. print_error example_extractor line =
      Some (MarkupError (closes_nothing_text ''80''))) \<and>
   read_bytes example_extractor ''cat.gif'' = Inl (OSError (no_such_file_text ''cat.gif'')) \<and>
   print_error example_extractor
     (''[bold red]Error processing image:[/] '' @
      exn_str (OSError (no_such_file_text ''cat.gif''))) = None \<and>
   process_image example_extractor ''cat.gif'' title_schema example_world =
     (Inr [], example_world\<lparr>console := console example_world @
        [''[bold red]Error processing image:[/] '' @
         exn_str (OSError (no_such_file_text ''cat.gif''))]\<rparr>) \<and>
   get_dynamic_model offline_extractor title_schema = Inr [(''title'', Prim PStr, Ellipsis)] \<and>
   read_bytes offline_extractor ''cat.gif'' = Inr ''GIF89a'' \<and>
   chat offline_extractor
       (image_request offline_extractor [(''title'', Prim PStr, Ellipsis)] title_schema ''GIF89a'')
       (endpoint example_world) = (Inl (Exception ''Failed to connect to Ollama''), 1) \<and>
   print_error offline_extractor
     (''[bold red]Error processing image:[/] '' @
      exn_str (Exception ''Failed to connect to Ollama'')) = None \<and>
   process_image offline_extractor ''cat.gif'' title_schema example_world =
     (Inr [], example_world\<lparr>endpoint := 1, console := console example_world @
        [''[bold red]Error processing image:[/] '' @
         exn_str (Exception ''Failed to connect to Ollama'')]\<rparr>) \<and>
   get_dynamic_model chatty_extractor title_schema = Inr [(''title'', Prim PStr, Ellipsis)] \<and>
   read_bytes chatty_extractor ''cat.gif'' = Inr ''GIF89a'' \<and>
   chat chatty_extractor
       (image_request chatty_extractor [(''title'', Prim PStr, Ellipsis)] title_schema ''GIF89a'')
       (endpoint example_world) = (Inr ''I see a cat.'', 1) \<and>
   model_validate_json (json_loads chatty_extractor) (lax chatty_extractor)
       [(''title'', Prim PStr, Ellipsis)] ''I see a cat.'' =
     Inl (ValidationError ''json_invalid'') \<and>
   print_error chatty_extractor
     (''[bold red]Validation Error:[/] '' @ py_repr ''json_invalid'') = None \<and>
   process_image chatty_extractor ''cat.gif'' title_schema example_world =
     (Inr [], example_world\<lparr>endpoint := 1, console := console example_world @
        [''[bold red]Validation Error:[/] '' @ py_repr ''json_invalid'']\<rparr>) \<and>
   get_dynamic_model viewer_extractor title_schema = Inr [(''title'', Prim PStr, Ellipsis)] \<and>
   read_bytes viewer_extractor ''pics/cat.gif'' = Inr ''GIF89a'' \<and>
   chat viewer_extractor
       (image_request viewer_extractor [(''title'', Prim PStr, Ellipsis)] title_schema ''GIF89a'')
       (endpoint example_world) = (Inr ''{"Entities":[{"title":"A"}]}'', 1) \<and>
   model_validate_json (json_loads viewer_extractor) (lax viewer_extractor)
       [(''title'', Prim PStr, Ellipsis)] ''{"Entities":[{"title":"A"}]}'' =
     Inr [[(''title'', VStr ''A'')]] \<and>
   process_image viewer_extractor ''pics/cat.gif'' title_schema example_world =
     (Inr (map (\<lambda>item. \<lparr>input = basename ''pics/cat.gif'', response = item\<rparr>)
             [[(''title'', VStr ''A'')]]),
      example_world\<lparr>endpoint := 1\<rparr>) \<and>
   basename ''pics/cat.gif'' = ''cat.gif''\<close>
proof -
  note m = example_models(2) other_models
  have zero: "endpoint example_world = 0"
    by (simp add: example_world_def)
  have a0: "process_image example_extractor ''pics/[/]cat.png'' title_schema example_world =
     (Inl (MarkupError (closes_nothing_text ''80'')), example_world)"
    by (simp add: process_image_def process_image_try_def example_models example_files
        print_return_def console_print_def example_console)
  have a1: "\<exists>line. print_error example_extractor line =
      Some (MarkupError (closes_nothing_text ''80''))"
    by (rule process_image_contains_failures [OF m(1), THEN conjunct1, THEN mp]) (rule a0)
  have b0: "read_bytes example_extractor ''cat.gif'' =
      Inl (OSError (no_such_file_text ''cat.gif''))"
    by (rule example_files)
  have b1: "print_error example_extractor
     (''[bold red]Error processing image:[/] '' @
      exn_str (OSError (no_such_file_text ''cat.gif''))) = None"
    by (simp add: example_console no_such_file_text_def py_repr_def)
  have b2: "process_image example_extractor ''cat.gif'' title_schema example_world =
     (Inr [], example_world\<lparr>console := console example_world @
        [''[bold red]Error processing image:[/] '' @
         exn_str (OSError (no_such_file_text ''cat.gif''))]\<rparr>)"
    by (rule process_image_contains_failures
        [OF m(1), THEN conjunct2, THEN conjunct1, THEN mp]) (rule conjI [OF b0 b1])
  have c0: "read_bytes offline_extractor ''cat.gif'' = Inr ''GIF89a''"
    by (rule example_files)
  have c1: "chat offline_extractor
       (image_request offline_extractor [(''title'', Prim PStr, Ellipsis)] title_schema ''GIF89a'')
       (endpoint example_world) = (Inl (Exception ''Failed to connect to Ollama''), 1)"
    by (simp add: example_chat zero)
  have c2: "print_error offline_extractor
     (''[bold red]Error processing image:[/] '' @
      exn_str (Exception ''Failed to connect to Ollama'')) = None"
    by (simp add: example_console no_such_file_text_def)
  have c3: "process_image offline_extractor ''cat.gif'' title_schema example_world =
     (Inr [], example_world\<lparr>endpoint := 1, console := console example_world @
        [''[bold red]Error processing image:[/] '' @
         exn_str (Exception ''Failed to connect to Ollama'')]\<rparr>)"
    by (rule process_image_contains_failures
        [OF m(2), THEN conjunct2, THEN conjunct2, THEN conjunct1, THEN mp])
      (rule conjI [OF c0 conjI [OF c1 c2]])
  have d0: "read_bytes chatty_extractor ''cat.gif'' = Inr ''GIF89a''"
    by (rule example_files)
  have d1: "chat chatty_extractor
       (image_request chatty_extractor [(''title'', Prim PStr, Ellipsis)] title_schema ''GIF89a'')
       (endpoint example_world) = (Inr ''I see a cat.'', 1)"
    by (simp add: example_chat zero)
  have d2: "model_validate_json (json_loads chatty_extractor) (lax chatty_extractor)
       [(''title'', Prim PStr, Ellipsis)] ''I see a cat.'' =
     Inl (ValidationError ''json_invalid'')"
    by (simp add: model_validate_json_def example_reader example_documents)
  have d3: "print_error chatty_extractor
     (''[bold red]Validation Error:[/] '' @ py_repr ''json_invalid'') = None"
    by (simp add: example_console no_such_file_text_def py_repr_def)
  have d4: "process_image chatty_extractor ''cat.gif'' title_schema example_world =
     (Inr [], example_world\<lparr>endpoint := 1, console := console example_world @
        [''[bold red]Validation Error:[/] '' @ py_repr ''json_invalid'']\<rparr>)"
    by (rule process_image_contains_failures
        [OF m(3), THEN conjunct2, THEN conjunct2, THEN conjunct2, THEN conjunct1, THEN mp])
      (rule conjI [OF d0 conjI [OF d1 conjI [OF d2 d3]]])
  have e0: "read_bytes viewer_extractor ''pics/cat.gif'' = Inr ''GIF89a''"
    by (rule example_files)
  have e1: \<open>chat viewer_extractor
       (image_request viewer_extractor [(''title'', Prim PStr, Ellipsis)] title_schema ''GIF89a'')
       (endpoint example_world) = (Inr ''{"Entities":[{"title":"A"}]}'', 1)\<close>
    by (simp add: example_chat zero)
  have e2: \<open>model_validate_json (json_loads viewer_extractor) (lax viewer_extractor)
       [(''title'', Prim PStr, Ellipsis)] ''{"Entities":[{"title":"A"}]}'' =
     Inr [[(''title'', VStr ''A'')]]\<close>
    by (simp add: model_validate_json_def example_reader example_documents)
  have e3: "process_image viewer_extractor ''pics/cat.gif'' title_schema example_world =
     (Inr (map (\<lambda>item. \<lparr>input = basename ''pics/cat.gif'', response = item\<rparr>)
             [[(''title'', VStr ''A'')]]),
      example_world\<lparr>endpoint := 1\<rparr>)"
    by (rule process_image_contains_failures
        [OF m(4), THEN conjunct2, THEN conjunct2, THEN conjunct2, THEN conjunct2, THEN mp])
      (rule conjI [OF e0 conjI [OF e1 e2]])
  have e4: "basename ''pics/cat.gif'' = ''cat.gif''"
    by (simp add: basename_def rfind_def)
  from m(1) a0 a1 b0 b1 b2 m(2) c0 c1 c2 c3 m(3) d0 d1 d2 d3 d4 m(4) e0 e1 e2 e3 e4
  show ?thesis by (intro conjI)
qed

text \<open>
  C8. The claim: exporting an empty result list to a \<open>.csv\<close> path writes no file and reports
  the no-op notice rather than raising. The code creates the directory of the path before it
  looks at the results; when that fails, as for a user who may not create \<open>/exports\<close>, the
  notice is not printed: the permission error is. And the console reads the printed line as
  markup: for the path \<open>/exports[/]/results.csv\<close> the handler's \<open>print\<close> raises MarkupError,
  which leaves the function, nothing being printed.
\<close>

theorem export_results_empty_csv_counterexample:
  "str_lower (snd (splitext ''/exports/results.csv'')) = ''.csv'' \<and>
   export_results example_extractor [] ''/exports/results.csv'' example_world =
     (Inr (), example_world
        \<lparr>console :=
           [''[bold red]Permission denied: Unable to write to /exports/results.csv[/]'']\<rparr>) \<and>
   str_lower (snd (splitext ''/exports[/]/results.csv'')) = ''.csv'' \<and>
   export_results example_extractor [] ''/exports[/]/results.csv'' example_world =
     (Inl (MarkupError (closes_nothing_text ''71'')), example_world)"
  by (simp add: export_results_def export_results_try_def example_paths example_files
      print_return_def console_print_def example_console example_world_def
      no_such_file_text_def py_repr_def)

text \<open>
  C8, as the code has it. For a \<open>.csv\<close> path, exporting the empty list leaves every file as
  it was, whatever else happens, and \<open>export_results\<close> raises nothing but what the console
  raises for a line it is to print. When the directory of the path can be created and the
  console accepts the notice, the directory is made, \<open>No results to export.\<close> is the last
  line of the console and nothing is raised. When the directory cannot be created, the
  notice is not printed: the line \<open>Permission denied: Unable to write to\<close> with the path,
  or \<open>OS Error during export:\<close> with the text of the error, is printed instead (provided the
  console accepts it). Exporting a non-empty list, when the directory can be created and the
  file opened, leaves a CSV file whose first row is \<open>input\<close> followed by the keys of the
  first result's response, whether or not a later row or the console raises.
\<close>

theorem export_results_csv:
  assumes "str_lower (snd (splitext output_file)) = ''.csv''"
  shows "files (snd (export_results self [] output_file w)) = files w \<and>
         (export_results self results output_file w = (Inl x, w') \<longrightarrow>
            (\<exists>line. print_error self line = Some x)) \<and>
         (makedirs self (export_dir output_file) = None \<and>
          print_error self ''[bold yellow]No results to export.[/]'' = None \<longrightarrow>
            export_results self [] output_file w =
              (Inr (), w\<lparr>dirs := insert (export_dir output_file) (dirs w),
                          console := console w @ [''[bold yellow]No results to export.[/]'']\<rparr>)) \<and>
         (makedirs self (export_dir output_file) = Some (PermissionError m) \<and>
          print_error self
            (''[bold red]Permission denied: Unable to write to '' @ output_file @ ''[/]'') =
            None \<longrightarrow>
            export_results self results output_file w =
              (Inr (), w\<lparr>console := console w @
                 [''[bold red]Permission denied: Unable to write to '' @ output_file @
                  ''[/]'']\<rparr>)) \<and>
         (makedirs self (export_dir output_file) = Some (OSError m) \<and>
          print_error self (''[bold red]OS Error during export: '' @ m @ ''[/]'') = None \<longrightarrow>
            export_results self results output_file w =
              (Inr (), w\<lparr>console := console w @
                 [''[bold red]OS Error during export: '' @ m @ ''[/]'']\<rparr>)) \<and>
         (makedirs self (export_dir output_file) = None \<and> open_write self output_file = None \<longrightarrow>
            (\<exists>r w1 rows. export_results self (first # rest) output_file w = (r, w1) \<and>
               files w1 output_file =
                 Some (CsvFile (map VStr (''input'' # map fst (response first)) # rows))))"
proof (intro conjI impI)
  from assms show "files (snd (export_results self [] output_file w)) = files w"
    by (rule export_results_empty_csv_files)
next
  assume "export_results self results output_file w = (Inl x, w')"
  then show "\<exists>line. print_error self line = Some x"
    by (rule export_results_raises)
next
  assume "makedirs self (export_dir output_file) = None \<and>
    print_error self ''[bold yellow]No results to export.[/]'' = None"
  with assms show "export_results self [] output_file w =
      (Inr (), w\<lparr>dirs := insert (export_dir output_file) (dirs w),
                  console := console w @ [''[bold yellow]No results to export.[/]'']\<rparr>)"
    by (simp add: export_results_def export_results_try_empty_csv print_return_prints)
next
  assume "makedirs self (export_dir output_file) = Some (PermissionError m) \<and>
    print_error self
      (''[bold red]Permission denied: Unable to write to '' @ output_file @ ''[/]'') = None"
  then show "export_results self results output_file w =
      (Inr (), w\<lparr>console := console w @
         [''[bold red]Permission denied: Unable to write to '' @ output_file @ ''[/]'']\<rparr>)"
    by (simp add: export_results_def export_results_try_def Let_def print_return_prints)
next
  assume "makedirs self (export_dir output_file) = Some (OSError m) \<and>
    print_error self (''[bold red]OS Error during export: '' @ m @ ''[/]'') = None"
  then show "export_results self results output_file w =
      (Inr (), w\<lparr>console := console w @
         [''[bold red]OS Error during export: '' @ m @ ''[/]'']\<rparr>)"
    by (simp add: export_results_def export_results_try_def Let_def print_return_prints)
next
  assume ok: "makedirs self (export_dir output_file) = None \<and> open_write self output_file = None"
  let ?fieldnames = "''input'' # map fst (response first)"
  obtain r rows' where wr:
    "write_rows self ?fieldnames (first # rest) [map VStr ?fieldnames] = (r, rows')"
    by (cases "write_rows self ?fieldnames (first # rest) [map VStr ?fieldnames]")
  then have "\<exists>more. rows' = [map VStr ?fieldnames] @ more"
    by (rule write_rows_extends)
  then obtain more where more: "rows' = [map VStr ?fieldnames] @ more" ..
  from ok have mk: "makedirs self (export_dir output_file) = None"
    and op: "open_write self output_file = None" by simp_all
  have "files (snd (export_results self (first # rest) output_file w)) output_file =
      files (snd (export_results_try self (first # rest) output_file w)) output_file"
    by (simp only: export_results_files)
  also have "\<dots> = Some (CsvFile rows')"
    using assms mk op wr by (rule export_results_try_csv_files)
  finally have "files (snd (export_results self (first # rest) output_file w)) output_file =
      Some (CsvFile (map VStr ?fieldnames # more))"
    using more by simp
  then show "\<exists>r w1 rows. export_results self (first # rest) output_file w = (r, w1) \<and>
      files w1 output_file = Some (CsvFile (map VStr ?fieldnames # rows))"
    by (cases "export_results self (first # rest) output_file w") auto
qed

theorem export_results_csv_witness:
  "str_lower (snd (splitext ''out/results.csv'')) = ''.csv'' \<and>
   files (snd (export_results example_extractor [] ''out/results.csv'' example_world)) =
     files example_world \<and>
   makedirs example_extractor (export_dir ''out/results.csv'') = None \<and>
   print_error example_extractor ''[bold yellow]No results to export.[/]'' = None \<and>
   export_results example_extractor [] ''out/results.csv'' example_world =
     (Inr (), example_world
        \<lparr>dirs := insert (export_dir ''out/results.csv'') (dirs example_world),
         console := console example_world @ [''[bold yellow]No results to export.[/]'']\<rparr>) \<and>
   export_dir ''out/results.csv'' = ''out'' \<and>
   open_write example_extractor ''out/results.csv'' = None \<and>
   (\<exists>r w1 rows.
      export_results example_extractor
          (\<lparr>input = ''foo'', response = [(''title'', VStr ''A'')]\<rparr> # []) ''out/results.csv''
          example_world = (r, w1) \<and>
      files w1 ''out/results.csv'' =
        Some (CsvFile (map VStr (''input'' #
          map fst (response \<lparr>input = ''foo'', response = [(''title'', VStr ''A'')]\<rparr>)) #
          rows))) \<and>
   str_lower (snd (splitext ''/exports/results.csv'')) = ''.csv'' \<and>
   makedirs example_extractor (export_dir ''/exports/results.csv'') =
     Some (PermissionError ''[Errno 13] Permission denied'') \<and>
   print_error example_extractor
     (''[bold red]Permission denied: Unable to write to '' @ ''/exports/results.csv'' @
      ''[/]'') = None \<and>
   export_results example_extractor [] ''/exports/results.csv'' example_world =
     (Inr (), example_world\<lparr>console := console example_world @
        [''[bold red]Permission denied: Unable to write to '' @ ''/exports/results.csv'' @
         ''[/]'']\<rparr>) \<and>
   str_lower (snd (splitext ''/dev/null/results.csv'')) = ''.csv'' \<and>
   makedirs example_extractor (export_dir ''/dev/null/results.csv'') =
     Some (OSError (''[Errno 17] File exists: '' @ py_repr ''/dev/null'')) \<and>
   print_error example_extractor
     (''[bold red]OS Error during export: '' @
      (''[Errno 17] File exists: '' @ py_repr ''/dev/null'') @ ''[/]'') = None \<and>
   export_results example_extractor [] ''/dev/null/results.csv'' example_world =
     (Inr (), example_world\<lparr>console := console example_world @
        [''[bold red]OS Error during export: '' @
         (''[Errno 17] File exists: '' @ py_repr ''/dev/null'') @ ''[/]'']\<rparr>) \<and>
   str_lower (snd (splitext ''/exports[/]/results.csv'')) = ''.csv'' \<and>
   export_results example_extractor [] ''/exports[/]/results.csv'' example_world =
     (Inl (MarkupError (closes_nothing_text ''71'')), example_world) \<and>
   (\<exists>line. print_error example_extractor line =
      Some (MarkupError (closes_nothing_text ''71'')))"
proof -
  note out = export_results_csv [OF example_paths(4), where self = example_extractor
      and w = example_world
      and first = "\<lparr>input = ''foo'', response = [(''title'', VStr ''A'')]\<rparr>" and rest = "[]"]
  have a1: "files (snd (export_results example_extractor [] ''out/results.csv'' example_world)) =
      files example_world"
    by (rule out [THEN conjunct1])
  have a2: "makedirs example_extractor (export_dir ''out/results.csv'') = None"
    by (simp add: example_paths example_files)
  have a3: "print_error example_extractor ''[bold yellow]No results to export.[/]'' = None"
    by (simp add: example_console no_such_file_text_def)
  have a4: "export_results example_extractor [] ''out/results.csv'' example_world =
     (Inr (), example_world
        \<lparr>dirs := insert (export_dir ''out/results.csv'') (dirs example_world),
         console := console example_world @ [''[bold yellow]No results to export.[/]'']\<rparr>)"
    by (rule out [THEN conjunct2, THEN conjunct2, THEN conjunct1, THEN mp])
      (rule conjI [OF a2 a3])
  have a5: "open_write example_extractor ''out/results.csv'' = None"
    by (rule example_files)
  have a6: "\<exists>r w1 rows.
      export_results example_extractor
          (\<lparr>input = ''foo'', response = [(''title'', VStr ''A'')]\<rparr> # []) ''out/results.csv''
          example_world = (r, w1) \<and>
      files w1 ''out/results.csv'' =
        Some (CsvFile (map VStr (''input'' #
          map fst (response \<lparr>input = ''foo'', response = [(''title'', VStr ''A'')]\<rparr>)) #
          rows))"
    by (rule out [THEN conjunct2, THEN conjunct2, THEN conjunct2, THEN conjunct2,
          THEN conjunct2, THEN mp])
      (rule conjI [OF a2 a5])
  have b1: "makedirs example_extractor (export_dir ''/exports/results.csv'') =
     Some (PermissionError ''[Errno 13] Permission denied'')"
    by (simp add: example_paths example_files)
  have b2: "print_error example_extractor
     (''[bold red]Permission denied: Unable to write to '' @ ''/exports/results.csv'' @
      ''[/]'') = None"
    by (simp add: example_console no_such_file_text_def)
  have b3: "export_results example_extractor [] ''/exports/results.csv'' example_world =
     (Inr (), example_world\<lparr>console := console example_world @
        [''[bold red]Permission denied: Unable to write to '' @ ''/exports/results.csv'' @
         ''[/]'']\<rparr>)"
    by (rule export_results_csv [OF example_paths(5), THEN conjunct2, THEN conjunct2,
          THEN conjunct2, THEN conjunct1, THEN mp])
      (rule conjI [OF b1 b2])
  have c1: "makedirs example_extractor (export_dir ''/dev/null/results.csv'') =
     Some (OSError (''[Errno 17] File exists: '' @ py_repr ''/dev/null''))"
    by (simp only: example_paths example_files)
  have c2: "print_error example_extractor
     (''[bold red]OS Error during export: '' @
      (''[Errno 17] File exists: '' @ py_repr ''/dev/null'') @ ''[/]'') = None"
    by (simp add: example_console no_such_file_text_def py_repr_def)
  have c3: "export_results example_extractor [] ''/dev/null/results.csv'' example_world =
     (Inr (), example_world\<lparr>console := console example_world @
        [''[bold red]OS Error during export: '' @
         (''[Errno 17] File exists: '' @ py_repr ''/dev/null'') @ ''[/]'']\<rparr>)"
    by (rule export_results_csv [OF example_paths(10), THEN conjunct2, THEN conjunct2,
          THEN conjunct2, THEN conjunct2, THEN conjunct1, THEN mp])
      (rule conjI [OF c1 c2])
  have d1: "export_results example_extractor [] ''/exports[/]/results.csv'' example_world =
     (Inl (MarkupError (closes_nothing_text ''71'')), example_world)"
    by (simp add: export_results_def export_results_try_def example_paths example_files
        print_return_def console_print_def example_console)
  have d2: "\<exists>line. print_error example_extractor line =
      Some (MarkupError (closes_nothing_text ''71''))"
    by (rule export_results_csv [OF example_paths(6), THEN conjunct2, THEN conjunct1, THEN mp])
      (rule d1)
  from example_paths(4) a1 a2 a3 a4 example_paths(7) a5 a6 example_paths(5) b1 b2 b3
    example_paths(10) c1 c2 c3 example_paths(6) d1 d2
  show ?thesis by (intro conjI)
qed

text \<open>
  C9. The claim: for a path whose extension is neither \<open>.txt\<close> nor \<open>.csv\<close>,
  \<open>process_bulk_text\<close> reports an unsupported format. The code has no branch for such a
  path: for \<open>notes.json\<close> it returns the empty list and prints nothing.
\<close>

theorem process_bulk_text_unsupported_is_silent:
  "process_bulk_text self ''notes.json'' model_fields w = (Inr [], w)"
  by (simp add: process_bulk_text_def process_bulk_text_try_def example_paths)

end
